theory Spec2Isabelle
  imports Main
begin

section \<open>Values, errors and the observed document\<close>

text \<open>
  The undo subsystem of \<^verbatim>\<open>pitivi/undo/timeline.py\<close> observes a GES timeline. Objects
  of the timeline (layers, clips, track elements, control sources) are Python
  references; the embedding names an object by its identity and keeps the attributes
  the source reads or writes in an explicit store.
\<close>

type_synonym oid = nat

text \<open>
  Python values that travel through the actions. \<open>PyFloatDiv a b\<close> stands for the
  float \<^verbatim>\<open>float(a / b)\<close> obtained by true division of two integers.
\<close>

datatype pyval = PyNone | PyBool bool | PyInt int | PyStr string | PyFloatDiv int int

datatype error = KeyError | AssertionError | AttributeError | TypeError

text \<open>A \<^verbatim>\<open>GObject.ParamSpec\<close>: the fields the source reads.\<close>

record pspec =
  owner_type_name :: string
  pspec_name :: string
  param_writable :: bool

definition child_property_name :: "pspec \<Rightarrow> string" where
  "child_property_name p = owner_type_name p @ ''::'' @ pspec_name p"

text \<open>The GES classes the source tests with \<^verbatim>\<open>isinstance\<close>.\<close>

datatype element_class = VideoTransition | BaseEffect | VideoSource | OtherTrackElement

record binding =
  binding_name :: string
  binding_control_source :: oid

text \<open>A keyframe (\<^verbatim>\<open>GstController.TimedValue\<close>): timestamp and value.\<close>

type_synonym keyframe = "int \<times> pyval"

text \<open>
  The attribute \<^verbatim>\<open>ui\<close> of the timeline, as \<^verbatim>\<open>ClipAdded.asScenarioAction\<close> tests it:
  absent (\<^verbatim>\<open>hasattr\<close> is false), present but falsy, or a widget with its
  \<^verbatim>\<open>editing_context\<close> (\<open>None\<close> for Python's \<^verbatim>\<open>None\<close>).
\<close>

datatype ui_attribute = NoUiAttribute | FalsyUi | Ui "oid option"

record track_element =
  te_class :: element_class
  te_name :: string
  te_asset :: string
  te_active :: bool
  te_parent :: oid
  te_children_properties :: "pspec list"
  te_child_values :: "string \<rightharpoonup> pyval"
  te_gobject_props :: "string \<rightharpoonup> pyval"
  te_control_bindings :: "(string \<times> binding) list"

record clip =
  clip_is_transition :: bool
  clip_name :: string
  clip_type_name :: string
  clip_asset_id :: string
  clip_layer :: oid
  clip_start :: int
  clip_duration :: int
  clip_in_point :: int
  clip_priority :: int
  clip_children :: "oid list"

record layer =
  layer_priority :: int
  layer_auto_transition :: bool
  layer_clips :: "oid list"
  layer_splitting_object :: "bool option"

text \<open>
  The store. \<open>commits\<close> counts the calls of \<^verbatim>\<open>pipeline.commit_timeline()\<close>;
  \<open>asset_extract\<close> gives the track element a \<^verbatim>\<open>clip.add_asset(asset)\<close> creates;
  \<open>generated_names\<close> is the sequence of names \<^verbatim>\<open>set_name(None)\<close> hands out;
  \<open>object_updates\<close> lists the calls of \<^verbatim>\<open>update_object\<close>. The action objects that
  other actions refer to are in the store as well: \<open>action_track_element\<close> holds the
  attribute \<^verbatim>\<open>track_element\<close> of each \<^verbatim>\<open>TrackElementAction\<close>, by the action's identity.
\<close>

record document =
  timeline_layers :: "oid list"
  timeline_ui :: ui_attribute
  layer_of :: "oid \<Rightarrow> layer"
  clip_of :: "oid \<Rightarrow> clip"
  element_of :: "oid \<Rightarrow> track_element"
  keyframes_of :: "oid \<Rightarrow> keyframe list"
  asset_extract :: "string \<Rightarrow> track_element"
  next_oid :: oid
  generated_names :: "nat \<Rightarrow> string"
  name_counter :: nat
  commits :: nat
  object_updates :: "(oid \<times> oid) list"
  action_track_element :: "oid \<Rightarrow> oid option"

subsection \<open>Accessors of the GES objects\<close>

definition get_child_property :: "document \<Rightarrow> oid \<Rightarrow> string \<Rightarrow> pyval option" where
  "get_child_property d e prop_name = te_child_values (element_of d e) prop_name"

definition get_control_binding :: "document \<Rightarrow> oid \<Rightarrow> string \<Rightarrow> binding option" where
  "get_control_binding d e prop_name = map_of (te_control_bindings (element_of d e)) prop_name"

definition list_children_properties :: "document \<Rightarrow> oid \<Rightarrow> pspec list" where
  "list_children_properties d e = te_children_properties (element_of d e)"

section \<open>Actions\<close>

type_synonym action_info = "(string \<times> pyval) list"

text \<open>
  \<^verbatim>\<open>TransitionClipRemovedAction\<close>: layer, start, duration, the track element and the
  captured \<^verbatim>\<open>TRANSITION_PROPS\<close> values.
\<close>

record transition_removed =
  tr_layer :: oid
  tr_start :: int
  tr_duration :: int
  tr_track_element :: oid
  tr_properties :: "(string \<times> pyval) list"

text \<open>
  One constructor per action class of the module. \<open>EffectAddedAction\<close> and
  \<open>EffectRemovedAction\<close> carry their own identity and the fields of
  \<^verbatim>\<open>TrackElementAction\<close> that never change (clip, asset, captured properties); the
  attribute \<^verbatim>\<open>track_element\<close>, which \<^verbatim>\<open>add\<close> and \<^verbatim>\<open>remove\<close> reassign, is read from the
  store. \<open>ActivePropertyChanged\<close> carries the identity of its \<^verbatim>\<open>effect_action\<close> and the
  stored flag \<^verbatim>\<open>self.active\<close>.
\<close>

datatype action =
    TrackElementPropertyChanged oid string pyval pyval
  | EffectAddedAction oid oid string "(string \<times> pyval) list"
  | EffectRemovedAction oid oid string "(string \<times> pyval) list"
  | ClipAdded oid oid
  | ClipRemoved oid oid "transition_removed list"
  | TransitionClipAddedAction oid int int oid
  | TransitionClipRemovedAction transition_removed
  | LayerAdded oid
  | LayerRemoved oid
  | LayerMoved oid int int
  | KeyframeAddedAction oid keyframe action_info
  | KeyframeRemovedAction oid keyframe action_info
  | KeyframeChangedAction oid keyframe keyframe
  | ActivePropertyChanged oid bool
  | ControlSourceSetAction action_info

subsection \<open>Mutators of the GES objects\<close>

text \<open>
  The calls the actions make into GES, on the store. \<^verbatim>\<open>set_child_property\<close> changes
  a child property the element has and reports failure (which the source ignores) for any
  other name. On a control source \<^verbatim>\<open>set\<close> inserts or overwrites and \<^verbatim>\<open>unset\<close> deletes.
\<close>

definition set_child_property :: "oid \<Rightarrow> string \<Rightarrow> pyval \<Rightarrow> document \<Rightarrow> document" where
  "set_child_property e prop_name v d =
     (if prop_name \<in> dom (te_child_values (element_of d e))
      then d\<lparr>element_of := (element_of d)
               (e := (element_of d e)
                  \<lparr>te_child_values := (te_child_values (element_of d e))(prop_name \<mapsto> v)\<rparr>)\<rparr>
      else d)"

definition set_property :: "oid \<Rightarrow> string \<Rightarrow> pyval \<Rightarrow> document \<Rightarrow> document" where
  "set_property e prop_name v d =
     d\<lparr>element_of := (element_of d)
         (e := (element_of d e)
            \<lparr>te_gobject_props := (te_gobject_props (element_of d e))(prop_name \<mapsto> v)\<rparr>)\<rparr>"

definition set_active :: "oid \<Rightarrow> bool \<Rightarrow> document \<Rightarrow> document" where
  "set_active e b d =
     d\<lparr>element_of := (element_of d)(e := (element_of d e)\<lparr>te_active := b\<rparr>)\<rparr>"

text \<open>
  A control source keeps its keyframes ordered by timestamp, one value per timestamp
  (\<^verbatim>\<open>get_all()\<close> returns them in that order).
\<close>

fun timed_value_set :: "int \<Rightarrow> pyval \<Rightarrow> keyframe list \<Rightarrow> keyframe list" where
  "timed_value_set t v [] = [(t, v)]"
| "timed_value_set t v ((t', v') # ks) =
     (if t < t' then (t, v) # (t', v') # ks
      else if t = t' then (t, v) # ks
      else (t', v') # timed_value_set t v ks)"

definition timed_value_unset :: "int \<Rightarrow> keyframe list \<Rightarrow> keyframe list" where
  "timed_value_unset t ks = filter (\<lambda>k. fst k \<noteq> t) ks"

definition control_source_set :: "oid \<Rightarrow> int \<Rightarrow> pyval \<Rightarrow> document \<Rightarrow> document" where
  "control_source_set cs t v d =
     d\<lparr>keyframes_of := (keyframes_of d)(cs := timed_value_set t v (keyframes_of d cs))\<rparr>"

definition control_source_unset :: "oid \<Rightarrow> int \<Rightarrow> document \<Rightarrow> document" where
  "control_source_unset cs t d =
     d\<lparr>keyframes_of := (keyframes_of d)(cs := timed_value_unset t (keyframes_of d cs))\<rparr>"

definition control_source_get_all :: "document \<Rightarrow> oid \<Rightarrow> keyframe list" where
  "control_source_get_all d cs = keyframes_of d cs"

definition set_layer_priority :: "oid \<Rightarrow> int \<Rightarrow> document \<Rightarrow> document" where
  "set_layer_priority l p d =
     d\<lparr>layer_of := (layer_of d)(l := (layer_of d l)\<lparr>layer_priority := p\<rparr>)\<rparr>"

definition add_layer :: "oid \<Rightarrow> document \<Rightarrow> document" where
  "add_layer l d =
     (if l \<in> set (timeline_layers d) then d
      else d\<lparr>timeline_layers := timeline_layers d @ [l]\<rparr>)"

definition remove_layer :: "oid \<Rightarrow> document \<Rightarrow> document" where
  "remove_layer l d = d\<lparr>timeline_layers := remove1 l (timeline_layers d)\<rparr>"

definition add_clip :: "oid \<Rightarrow> oid \<Rightarrow> document \<Rightarrow> document" where
  "add_clip l c d =
     (if c \<in> set (layer_clips (layer_of d l)) then d
      else d\<lparr>layer_of := (layer_of d)
               (l := (layer_of d l)\<lparr>layer_clips := layer_clips (layer_of d l) @ [c]\<rparr>),
             clip_of := (clip_of d)(c := (clip_of d c)\<lparr>clip_layer := l\<rparr>)\<rparr>)"

definition remove_clip :: "oid \<Rightarrow> oid \<Rightarrow> document \<Rightarrow> document" where
  "remove_clip l c d =
     d\<lparr>layer_of := (layer_of d)
         (l := (layer_of d l)\<lparr>layer_clips := remove1 c (layer_clips (layer_of d l))\<rparr>)\<rparr>"

definition set_name_None :: "oid \<Rightarrow> document \<Rightarrow> document" where
  "set_name_None c d =
     d\<lparr>clip_of := (clip_of d)
         (c := (clip_of d c)\<lparr>clip_name := generated_names d (name_counter d)\<rparr>),
       name_counter := Suc (name_counter d)\<rparr>"

definition add_asset :: "oid \<Rightarrow> string \<Rightarrow> document \<Rightarrow> oid \<times> document" where
  "add_asset c asset d =
     (next_oid d,
      d\<lparr>element_of := (element_of d)
          (next_oid d := (asset_extract d asset)\<lparr>te_parent := c\<rparr>),
        clip_of := (clip_of d)
          (c := (clip_of d c)\<lparr>clip_children := clip_children (clip_of d c) @ [next_oid d]\<rparr>),
        next_oid := Suc (next_oid d)\<rparr>)"

definition clip_remove :: "oid \<Rightarrow> oid \<Rightarrow> document \<Rightarrow> document" where
  "clip_remove c e d =
     d\<lparr>clip_of := (clip_of d)
         (c := (clip_of d c)\<lparr>clip_children := remove1 e (clip_children (clip_of d c))\<rparr>)\<rparr>"

definition commit_timeline :: "document \<Rightarrow> document" where
  "commit_timeline d = d\<lparr>commits := Suc (commits d)\<rparr>"

text \<open>
  \<^verbatim>\<open>layer.get_timeline()\<close>: the timeline when the layer is in it, \<^verbatim>\<open>None\<close> otherwise.
  \<^verbatim>\<open>self.layer.get_timeline().get_asset().pipeline.commit_timeline()\<close> raises
  AttributeError on \<^verbatim>\<open>None\<close>.
\<close>

definition layer_in_timeline :: "document \<Rightarrow> oid \<Rightarrow> bool" where
  "layer_in_timeline d l = (l \<in> set (timeline_layers d))"

definition commit_through_layer :: "oid \<Rightarrow> document \<Rightarrow> error + document" where
  "commit_through_layer l d =
     (if layer_in_timeline d l then Inr (commit_timeline d) else Inl AttributeError)"

text \<open>
  Modelled from the spec: \<^verbatim>\<open>UndoableAutomaticObjectAction.update_object\<close> of
  \<^verbatim>\<open>pitivi/undo/undo.py\<close> is missing. The spec says the speculative target of the action
  is updated in place once the matching element is found; the model records the pair
  (speculative element, live element).
\<close>

definition update_object :: "oid \<Rightarrow> oid \<Rightarrow> document \<Rightarrow> document" where
  "update_object auto_object new_auto_object d =
     d\<lparr>object_updates := object_updates d @ [(auto_object, new_auto_object)]\<rparr>"

subsection \<open>TrackElementAction: add and remove\<close>

fun set_child_properties :: "oid \<Rightarrow> (string \<times> pyval) list \<Rightarrow> document \<Rightarrow> document" where
  "set_child_properties e [] d = d"
| "set_child_properties e ((prop_name, prop_value) # ps) d =
     set_child_properties e ps (set_child_property e prop_name prop_value d)"

definition track_element_action_add ::
  "oid \<Rightarrow> oid \<Rightarrow> string \<Rightarrow> (string \<times> pyval) list \<Rightarrow> document \<Rightarrow> document" where
  "track_element_action_add self c asset props d =
     (case add_asset c asset d of
        (e, d') \<Rightarrow>
          set_child_properties e props
            (d'\<lparr>action_track_element := (action_track_element d')(self := Some e)\<rparr>))"

definition track_element_action_remove :: "oid \<Rightarrow> oid \<Rightarrow> document \<Rightarrow> error + document" where
  "track_element_action_remove self c d =
     (case action_track_element d self of
        None \<Rightarrow> Inl TypeError
      | Some e \<Rightarrow>
          Inr ((clip_remove c e d)
                 \<lparr>action_track_element := (action_track_element d)(self := None)\<rparr>))"

subsection \<open>TransitionClipAction\<close>

fun get_video_element_in :: "document \<Rightarrow> oid list \<Rightarrow> oid option" where
  "get_video_element_in d [] = None"
| "get_video_element_in d (e # es) =
     (if te_class (element_of d e) = VideoTransition then Some e
      else get_video_element_in d es)"

definition get_video_element :: "document \<Rightarrow> oid \<Rightarrow> oid option" where
  "get_video_element d ges_clip = get_video_element_in d (clip_children (clip_of d ges_clip))"

fun find_video_transition_in :: "document \<Rightarrow> int \<Rightarrow> int \<Rightarrow> oid list \<Rightarrow> oid option" where
  "find_video_transition_in d start duration [] = None"
| "find_video_transition_in d start duration (ges_clip # cs) =
     (if clip_is_transition (clip_of d ges_clip)
         \<and> clip_start (clip_of d ges_clip) = start
         \<and> clip_duration (clip_of d ges_clip) = duration
      then (case get_video_element d ges_clip of
              None \<Rightarrow> find_video_transition_in d start duration cs
            | Some track_element \<Rightarrow> Some track_element)
      else find_video_transition_in d start duration cs)"

definition find_video_transition :: "document \<Rightarrow> oid \<Rightarrow> int \<Rightarrow> int \<Rightarrow> oid option" where
  "find_video_transition d ges_layer start duration =
     find_video_transition_in d start duration (layer_clips (layer_of d ges_layer))"

fun set_properties :: "oid \<Rightarrow> (string \<times> pyval) list \<Rightarrow> document \<Rightarrow> document" where
  "set_properties e [] d = d"
| "set_properties e ((prop_name, v) # ps) d = set_properties e ps (set_property e prop_name v d)"

definition transition_removed_undo :: "transition_removed \<Rightarrow> document \<Rightarrow> document" where
  "transition_removed_undo tr d =
     (case find_video_transition d (tr_layer tr) (tr_start tr) (tr_duration tr) of
        None \<Rightarrow> d
      | Some track_element \<Rightarrow>
          set_properties track_element (tr_properties tr)
            (update_object (tr_track_element tr) track_element d))"

fun transition_removed_undo_all :: "transition_removed list \<Rightarrow> document \<Rightarrow> document" where
  "transition_removed_undo_all [] d = d"
| "transition_removed_undo_all (tr # trs) d =
     transition_removed_undo_all trs (transition_removed_undo tr d)"

subsection \<open>do and undo\<close>

text \<open>
  Each returns the action (\<^verbatim>\<open>self\<close>, which some actions change) and the document, or
  the exception raised. The signals GES emits while an action runs re-enter the
  observers, which only push actions to the log; they are not part of these functions.
  \<open>ControlSourceSetAction\<close> inherits \<^verbatim>\<open>do\<close> and \<^verbatim>\<open>undo\<close> from
  \<^verbatim>\<open>SimpleUndoableAction\<close>, which is missing; the model leaves the document as it is.
\<close>

fun do_action :: "action \<Rightarrow> document \<Rightarrow> error + (action \<times> document)" where
  "do_action (TrackElementPropertyChanged e prop_name old_value new_value) d =
     Inr (TrackElementPropertyChanged e prop_name old_value new_value,
          set_child_property e prop_name new_value d)"
| "do_action (EffectAddedAction self c asset props) d =
     Inr (EffectAddedAction self c asset props, track_element_action_add self c asset props d)"
| "do_action (EffectRemovedAction self c asset props) d =
     (case track_element_action_remove self c d of
        Inl err \<Rightarrow> Inl err
      | Inr d' \<Rightarrow> Inr (EffectRemovedAction self c asset props, d'))"
| "do_action (ClipAdded l c) d =
     (case commit_through_layer l (add_clip l c (set_name_None c d)) of
        Inl err \<Rightarrow> Inl err
      | Inr d' \<Rightarrow> Inr (ClipAdded l c, d'))"
| "do_action (ClipRemoved l c trs) d =
     (case commit_through_layer l (remove_clip l c d) of
        Inl err \<Rightarrow> Inl err
      | Inr d' \<Rightarrow> Inr (ClipRemoved l c trs, d'))"
| "do_action (TransitionClipAddedAction ges_layer start duration track_element) d =
     (case find_video_transition d ges_layer start duration of
        None \<Rightarrow> Inl AssertionError
      | Some found \<Rightarrow>
          Inr (TransitionClipAddedAction ges_layer start duration track_element,
               update_object track_element found d))"
| "do_action (TransitionClipRemovedAction tr) d = Inr (TransitionClipRemovedAction tr, d)"
| "do_action (LayerAdded l) d = Inr (LayerAdded l, add_layer l d)"
| "do_action (LayerRemoved l) d = Inr (LayerRemoved l, commit_timeline (remove_layer l d))"
| "do_action (LayerMoved l old_priority priority) d =
     Inr (LayerMoved l old_priority priority, set_layer_priority l priority d)"
| "do_action (KeyframeAddedAction cs k info) d =
     Inr (KeyframeAddedAction cs k info, control_source_set cs (fst k) (snd k) d)"
| "do_action (KeyframeRemovedAction cs k info) d =
     Inr (KeyframeRemovedAction cs k info, control_source_unset cs (fst k) d)"
| "do_action (KeyframeChangedAction cs old_snapshot new_snapshot) d =
     Inr (KeyframeChangedAction cs old_snapshot new_snapshot,
          control_source_set cs (fst new_snapshot) (snd new_snapshot) d)"
| "do_action (ActivePropertyChanged effect_action active) d =
     (case action_track_element d effect_action of
        None \<Rightarrow> Inl AttributeError
      | Some e \<Rightarrow> Inr (ActivePropertyChanged effect_action (\<not> active), set_active e active d))"
| "do_action (ControlSourceSetAction info) d = Inr (ControlSourceSetAction info, d)"

fun undo_action :: "action \<Rightarrow> document \<Rightarrow> error + (action \<times> document)" where
  "undo_action (TrackElementPropertyChanged e prop_name old_value new_value) d =
     Inr (TrackElementPropertyChanged e prop_name old_value new_value,
          set_child_property e prop_name old_value d)"
| "undo_action (EffectAddedAction self c asset props) d =
     (case track_element_action_remove self c d of
        Inl err \<Rightarrow> Inl err
      | Inr d' \<Rightarrow> Inr (EffectAddedAction self c asset props, d'))"
| "undo_action (EffectRemovedAction self c asset props) d =
     Inr (EffectRemovedAction self c asset props, track_element_action_add self c asset props d)"
| "undo_action (ClipAdded l c) d =
     (case commit_through_layer l (remove_clip l c d) of
        Inl err \<Rightarrow> Inl err
      | Inr d' \<Rightarrow> Inr (ClipAdded l c, d'))"
| "undo_action (ClipRemoved l c trs) d =
     (case commit_through_layer l (add_clip l c (set_name_None c d)) of
        Inl err \<Rightarrow> Inl err
      | Inr d' \<Rightarrow> Inr (ClipRemoved l c trs, transition_removed_undo_all trs d'))"
| "undo_action (TransitionClipAddedAction ges_layer start duration track_element) d =
     Inr (TransitionClipAddedAction ges_layer start duration track_element, d)"
| "undo_action (TransitionClipRemovedAction tr) d =
     Inr (TransitionClipRemovedAction tr, transition_removed_undo tr d)"
| "undo_action (LayerAdded l) d = Inr (LayerAdded l, commit_timeline (remove_layer l d))"
| "undo_action (LayerRemoved l) d = Inr (LayerRemoved l, add_layer l d)"
| "undo_action (LayerMoved l old_priority priority) d =
     Inr (LayerMoved l old_priority priority, set_layer_priority l old_priority d)"
| "undo_action (KeyframeAddedAction cs k info) d =
     Inr (KeyframeAddedAction cs k info, control_source_unset cs (fst k) d)"
| "undo_action (KeyframeRemovedAction cs k info) d =
     Inr (KeyframeRemovedAction cs k info, control_source_set cs (fst k) (snd k) d)"
| "undo_action (KeyframeChangedAction cs old_snapshot new_snapshot) d =
     Inr (KeyframeChangedAction cs old_snapshot new_snapshot,
          control_source_set cs (fst old_snapshot) (snd old_snapshot) d)"
| "undo_action (ActivePropertyChanged effect_action active) d =
     (case action_track_element d effect_action of
        None \<Rightarrow> Inl AttributeError
      | Some e \<Rightarrow> Inr (ActivePropertyChanged effect_action (\<not> active), set_active e active d))"
| "undo_action (ControlSourceSetAction info) d = Inr (ControlSourceSetAction info, d)"

text \<open>
  The constructor of \<open>ActivePropertyChanged\<close> stores the effect action it is given and
  the complement of the flag; \<^verbatim>\<open>do\<close> and \<^verbatim>\<open>undo\<close> read the effect action's
  \<^verbatim>\<open>track_element\<close> when they run.
\<close>

definition new_ActivePropertyChanged :: "oid \<Rightarrow> bool \<Rightarrow> action" where
  "new_ActivePropertyChanged effect_action active = ActivePropertyChanged effect_action (\<not> active)"

subsection \<open>ClipRemoved.expand\<close>

text \<open>
  \<^verbatim>\<open>ClipRemoved.expand\<close> on the fields of the \<open>ClipRemoved\<close> action: the value returned
  and the action afterwards.
\<close>

fun clip_removed_expand ::
  "oid \<Rightarrow> oid \<Rightarrow> transition_removed list \<Rightarrow> action \<Rightarrow> bool \<times> action" where
  "clip_removed_expand l c trs (TransitionClipRemovedAction tr) =
     (True, ClipRemoved l c (trs @ [tr]))"
| "clip_removed_expand l c trs candidate = (False, ClipRemoved l c trs)"

subsection \<open>ClipAdded.asScenarioAction\<close>

text \<open>\<^verbatim>\<open>Gst.SECOND\<close>, the number of nanoseconds in a second.\<close>

definition Gst_SECOND :: int where
  "Gst_SECOND = 1000000000"

text \<open>A \<^verbatim>\<open>Gst.Structure\<close>: its name and its fields in the order they were set.\<close>

type_synonym gst_structure = "string \<times> (string \<times> pyval) list"

definition timeline_ui_of_layer :: "document \<Rightarrow> oid \<Rightarrow> ui_attribute" where
  "timeline_ui_of_layer d l = (if layer_in_timeline d l then timeline_ui d else NoUiAttribute)"

definition editing_in_progress :: "ui_attribute \<Rightarrow> bool" where
  "editing_in_progress u =
     (case u of NoUiAttribute \<Rightarrow> False | FalsyUi \<Rightarrow> False | Ui ctx \<Rightarrow> ctx \<noteq> None)"

definition clip_added_asScenarioAction :: "document \<Rightarrow> oid \<Rightarrow> oid \<Rightarrow> gst_structure option" where
  "clip_added_asScenarioAction d l c =
     (if layer_splitting_object (layer_of d l) = Some True then None
      else if editing_in_progress (timeline_ui_of_layer d l) then None
      else Some (''add-clip'',
             [(''name'', PyStr (clip_name (clip_of d c))),
              (''layer-priority'', PyInt (layer_priority (layer_of d l))),
              (''asset-id'', PyStr (clip_asset_id (clip_of d c))),
              (''type'', PyStr (clip_type_name (clip_of d c))),
              (''start'', PyFloatDiv (clip_start (clip_of d c)) Gst_SECOND),
              (''inpoint'', PyFloatDiv (clip_in_point (clip_of d c)) Gst_SECOND),
              (''duration'', PyFloatDiv (clip_duration (clip_of d c)) Gst_SECOND)]))"

section \<open>Observers\<close>

text \<open>
  A signal connection: the emitting object, the signal name and the bound method
  connected to it. A bound method is named by the observer it belongs to and the
  method's name; an observer is named by its class and the object it observes.
\<close>

datatype observer_ref =
    TimelineObserverRef
  | LayerObserverRef oid
  | TimelineElementObserverRef oid
  | ControlSourceObserverRef oid
  | GObjectObserverRef oid

type_synonym connection = "oid \<times> string \<times> observer_ref \<times> string"

text \<open>
  What every observer shares: the live document, the action log
  (\<^verbatim>\<open>action_log.push\<close> appends) and the signal connections.
\<close>

record world =
  doc :: document
  action_log :: "action list"
  connections :: "connection list"

definition push :: "action \<Rightarrow> world \<Rightarrow> world" where
  "push a w = w\<lparr>action_log := action_log w @ [a]\<rparr>"

definition connect :: "oid \<Rightarrow> string \<Rightarrow> observer_ref \<Rightarrow> string \<Rightarrow> world \<Rightarrow> world" where
  "connect obj signal owner method w =
     w\<lparr>connections := connections w @ [(obj, signal, owner, method)]\<rparr>"

definition disconnect_by_func :: "oid \<Rightarrow> observer_ref \<Rightarrow> string \<Rightarrow> world \<Rightarrow> world" where
  "disconnect_by_func obj owner method w =
     w\<lparr>connections :=
         filter (\<lambda>(obj', signal, owner', method').
                   \<not> (obj' = obj \<and> owner' = owner \<and> method' = method))
                (connections w)\<rparr>"

subsection \<open>TimelineElementObserver\<close>

record timeline_element_observer =
  teo_element :: "oid option"
  teo_properties :: "string \<rightharpoonup> pyval"

text \<open>
  The loop of \<^verbatim>\<open>TimelineElementObserver.__init__\<close> over the children properties.
  \<open>props_to_ignore\<close> is \<^verbatim>\<open>pitivi.effects.PROPS_TO_IGNORE\<close>, a parameter here.
\<close>

fun snapshot_properties ::
  "string list \<Rightarrow> document \<Rightarrow> oid \<Rightarrow> pspec list \<Rightarrow> (string \<rightharpoonup> pyval)
     \<Rightarrow> error + (string \<rightharpoonup> pyval)" where
  "snapshot_properties props_to_ignore d e [] props = Inr props"
| "snapshot_properties props_to_ignore d e (p # ps) props =
     (if pspec_name p \<in> set props_to_ignore
      then snapshot_properties props_to_ignore d e ps props
      else (case get_child_property d e (child_property_name p) of
              None \<Rightarrow> Inl AssertionError
            | Some v \<Rightarrow>
                snapshot_properties props_to_ignore d e ps
                  (props(child_property_name p \<mapsto> v))))"

definition timeline_element_observer_init ::
  "string list \<Rightarrow> oid \<Rightarrow> world \<Rightarrow> error + (timeline_element_observer \<times> world)" where
  "timeline_element_observer_init props_to_ignore e w =
     (case snapshot_properties props_to_ignore (doc w) e
             (list_children_properties (doc w) e) Map.empty of
        Inl err \<Rightarrow> Inl err
      | Inr props \<Rightarrow>
          Inr (\<lparr>teo_element = Some e, teo_properties = props\<rparr>,
               connect e ''deep-notify'' (TimelineElementObserverRef e)
                 ''_property_changed_cb'' w))"

definition timeline_element_observer_release ::
  "timeline_element_observer \<Rightarrow> world \<Rightarrow> error + (timeline_element_observer \<times> world)" where
  "timeline_element_observer_release obs w =
     (case teo_element obs of
        None \<Rightarrow> Inl AttributeError
      | Some e \<Rightarrow>
          Inr (obs\<lparr>teo_element := None\<rparr>,
               disconnect_by_func e (TimelineElementObserverRef e)
                 ''_property_changed_cb'' w))"

definition property_changed_cb ::
  "string list \<Rightarrow> timeline_element_observer \<Rightarrow> world \<Rightarrow> oid \<Rightarrow> pspec
     \<Rightarrow> error + (timeline_element_observer \<times> world)" where
  "property_changed_cb props_to_ignore obs w ges_timeline_element p =
     (let prop_name = child_property_name p in
      if pspec_name p \<in> set props_to_ignore then Inr (obs, w)
      else if get_control_binding (doc w) ges_timeline_element prop_name \<noteq> None
      then Inr (obs, w)
      else (case teo_properties obs prop_name of
              None \<Rightarrow> Inl KeyError
            | Some old_value \<Rightarrow>
                (case get_child_property (doc w) ges_timeline_element prop_name of
                   None \<Rightarrow> Inl AssertionError
                 | Some new_value \<Rightarrow>
                     Inr (obs\<lparr>teo_properties := (teo_properties obs)(prop_name \<mapsto> new_value)\<rparr>,
                          push (TrackElementPropertyChanged ges_timeline_element prop_name
                                  old_value new_value) w))))"

subsection \<open>ControlSourceObserver\<close>

record control_source_observer =
  cso_control_source :: "oid option"
  cso_action_info :: action_info
  cso_keyframes :: "int \<rightharpoonup> keyframe"

definition control_source_observer_init ::
  "oid \<Rightarrow> action_info \<Rightarrow> world \<Rightarrow> control_source_observer \<times> world" where
  "control_source_observer_init control_source action_info w =
     (\<lparr>cso_control_source = Some control_source,
       cso_action_info = action_info,
       cso_keyframes = fold (\<lambda>k m. m(fst k \<mapsto> (fst k, snd k)))
                         (control_source_get_all (doc w) control_source) Map.empty\<rparr>,
      connect control_source ''value-removed'' (ControlSourceObserverRef control_source)
        ''_keyframe_removed_cb''
        (connect control_source ''value-changed'' (ControlSourceObserverRef control_source)
           ''_keyframe_moved_cb''
           (connect control_source ''value-added'' (ControlSourceObserverRef control_source)
              ''_keyframe_added_cb'' w)))"

definition control_source_observer_release ::
  "control_source_observer \<Rightarrow> world \<Rightarrow> error + (control_source_observer \<times> world)" where
  "control_source_observer_release obs w =
     (case cso_control_source obs of
        None \<Rightarrow> Inl AttributeError
      | Some cs \<Rightarrow>
          Inr (obs\<lparr>cso_control_source := None\<rparr>,
               disconnect_by_func cs (ControlSourceObserverRef cs) ''_keyframe_removed_cb''
                 (disconnect_by_func cs (ControlSourceObserverRef cs) ''_keyframe_moved_cb''
                    (disconnect_by_func cs (ControlSourceObserverRef cs)
                       ''_keyframe_added_cb'' w))))"

definition keyframe_added_cb ::
  "control_source_observer \<Rightarrow> world \<Rightarrow> oid \<Rightarrow> keyframe \<Rightarrow> control_source_observer \<times> world" where
  "keyframe_added_cb obs w control_source k =
     (obs\<lparr>cso_keyframes := (cso_keyframes obs)(fst k \<mapsto> (fst k, snd k))\<rparr>,
      push (KeyframeAddedAction control_source k (cso_action_info obs)) w)"

definition keyframe_moved_cb ::
  "control_source_observer \<Rightarrow> world \<Rightarrow> oid \<Rightarrow> keyframe
     \<Rightarrow> error + (control_source_observer \<times> world)" where
  "keyframe_moved_cb obs w control_source k =
     (case cso_keyframes obs (fst k) of
        None \<Rightarrow> Inl KeyError
      | Some old_snapshot \<Rightarrow>
          Inr (obs\<lparr>cso_keyframes := (cso_keyframes obs)(fst k \<mapsto> (fst k, snd k))\<rparr>,
               push (KeyframeChangedAction control_source old_snapshot (fst k, snd k)) w))"

definition keyframe_removed_cb ::
  "control_source_observer \<Rightarrow> world \<Rightarrow> oid \<Rightarrow> keyframe
     \<Rightarrow> error + (control_source_observer \<times> world)" where
  "keyframe_removed_cb obs w control_source k =
     (case cso_keyframes obs (fst k) of
        None \<Rightarrow> Inl KeyError
      | Some old_snapshot \<Rightarrow>
          Inr (obs\<lparr>cso_keyframes := (cso_keyframes obs)(fst k := None)\<rparr>,
               push (KeyframeRemovedAction control_source k (cso_action_info obs)) w))"

subsection \<open>GObjectObserver\<close>

text \<open>
  Modelled from the spec: \<^verbatim>\<open>GObjectObserver\<close> of \<^verbatim>\<open>pitivi/undo/undo.py\<close> is missing.
  The spec's PropertyObserver snapshots, on construction, the current value of each
  watched property (a read that fails is a contract violation) and subscribes to the
  change notifications of the observed object; on release it unsubscribes. Construction
  pushes no action. \<open>reader\<close> reads a property of the observed object.
\<close>

record gobject_observer =
  goo_gobject :: "oid option"
  goo_property_names :: "string list"
  goo_properties :: "string \<rightharpoonup> pyval"

fun gobject_snapshot ::
  "(string \<Rightarrow> pyval option) \<Rightarrow> string list \<Rightarrow> (string \<rightharpoonup> pyval)
     \<Rightarrow> error + (string \<rightharpoonup> pyval)" where
  "gobject_snapshot reader [] props = Inr props"
| "gobject_snapshot reader (n # ns) props =
     (case reader n of
        None \<Rightarrow> Inl TypeError
      | Some v \<Rightarrow> gobject_snapshot reader ns (props(n \<mapsto> v)))"

fun gobject_connect_all :: "oid \<Rightarrow> string list \<Rightarrow> world \<Rightarrow> world" where
  "gobject_connect_all obj [] w = w"
| "gobject_connect_all obj (n # ns) w =
     gobject_connect_all obj ns
       (connect obj (''notify::'' @ n) (GObjectObserverRef obj) ''_property_changed_cb'' w)"

definition gobject_observer_init ::
  "oid \<Rightarrow> (string \<Rightarrow> pyval option) \<Rightarrow> string list \<Rightarrow> world
     \<Rightarrow> error + (gobject_observer \<times> world)" where
  "gobject_observer_init obj reader property_names w =
     (case gobject_snapshot reader property_names Map.empty of
        Inl err \<Rightarrow> Inl err
      | Inr props \<Rightarrow>
          Inr (\<lparr>goo_gobject = Some obj, goo_property_names = property_names,
                goo_properties = props\<rparr>,
               gobject_connect_all obj property_names w))"

definition gobject_observer_release ::
  "gobject_observer \<Rightarrow> world \<Rightarrow> error + (gobject_observer \<times> world)" where
  "gobject_observer_release obs w =
     (case goo_gobject obs of
        None \<Rightarrow> Inl AttributeError
      | Some obj \<Rightarrow>
          Inr (obs\<lparr>goo_gobject := None\<rparr>,
               disconnect_by_func obj (GObjectObserverRef obj) ''_property_changed_cb'' w))"

definition element_get_property :: "document \<Rightarrow> oid \<Rightarrow> string \<Rightarrow> pyval option" where
  "element_get_property d e n = te_gobject_props (element_of d e) n"

definition clip_get_property :: "document \<Rightarrow> oid \<Rightarrow> string \<Rightarrow> pyval option" where
  "clip_get_property d c n =
     (if n = ''start'' then Some (PyInt (clip_start (clip_of d c)))
      else if n = ''duration'' then Some (PyInt (clip_duration (clip_of d c)))
      else if n = ''in-point'' then Some (PyInt (clip_in_point (clip_of d c)))
      else if n = ''priority'' then Some (PyInt (clip_priority (clip_of d c)))
      else None)"

subsection \<open>Constructors of the actions the observers push\<close>

definition TRANSITION_PROPS :: "string list" where
  "TRANSITION_PROPS = [''border'', ''invert'', ''transition-type'']"

fun capture_properties ::
  "(string \<Rightarrow> pyval option) \<Rightarrow> string list \<Rightarrow> error + (string \<times> pyval) list" where
  "capture_properties reader [] = Inr []"
| "capture_properties reader (n # ns) =
     (case reader n of
        None \<Rightarrow> Inl TypeError
      | Some v \<Rightarrow>
          (case capture_properties reader ns of
             Inl err \<Rightarrow> Inl err
           | Inr ps \<Rightarrow> Inr ((n, v) # ps)))"

text \<open>
  \<^verbatim>\<open>TransitionClipRemovedAction.new\<close>: no action when the clip has no video element.
\<close>

definition new_TransitionClipRemovedAction ::
  "document \<Rightarrow> oid \<Rightarrow> oid \<Rightarrow> error + action option" where
  "new_TransitionClipRemovedAction d ges_layer ges_clip =
     (case get_video_element d ges_clip of
        None \<Rightarrow> Inr None
      | Some track_element \<Rightarrow>
          (case capture_properties (element_get_property d track_element) TRANSITION_PROPS of
             Inl err \<Rightarrow> Inl err
           | Inr ps \<Rightarrow>
               Inr (Some (TransitionClipRemovedAction
                 \<lparr>tr_layer = ges_layer,
                  tr_start = clip_start (clip_of d ges_clip),
                  tr_duration = clip_duration (clip_of d ges_clip),
                  tr_track_element = track_element,
                  tr_properties = ps\<rparr>))))"

text \<open>The loop of \<^verbatim>\<open>TrackElementAction.__init__\<close> over the children properties.\<close>

fun track_element_props ::
  "string list \<Rightarrow> document \<Rightarrow> oid \<Rightarrow> pspec list \<Rightarrow> error + (string \<times> pyval) list" where
  "track_element_props props_to_ignore d e [] = Inr []"
| "track_element_props props_to_ignore d e (p # ps) =
     (if \<not> param_writable p \<or> pspec_name p \<in> set props_to_ignore
      then track_element_props props_to_ignore d e ps
      else (case get_child_property d e (child_property_name p) of
              None \<Rightarrow> Inl AssertionError
            | Some v \<Rightarrow>
                (case track_element_props props_to_ignore d e ps of
                   Inl err \<Rightarrow> Inl err
                 | Inr rest \<Rightarrow> Inr ((child_property_name p, v) # rest))))"

text \<open>
  The constructor creates the action object: it gets a fresh identity, and its attribute
  \<^verbatim>\<open>track_element\<close> is the element it was built for.
\<close>

definition new_TrackElementAction ::
  "(oid \<Rightarrow> oid \<Rightarrow> string \<Rightarrow> (string \<times> pyval) list \<Rightarrow> action)
     \<Rightarrow> string list \<Rightarrow> document \<Rightarrow> oid \<Rightarrow> oid \<Rightarrow> error + (action \<times> document)" where
  "new_TrackElementAction cls props_to_ignore d c e =
     (case track_element_props props_to_ignore d e (list_children_properties d e) of
        Inl err \<Rightarrow> Inl err
      | Inr ps \<Rightarrow>
          Inr (cls (next_oid d) c (te_asset (element_of d e)) ps,
               d\<lparr>action_track_element := (action_track_element d)(next_oid d := Some e),
                 next_oid := Suc (next_oid d)\<rparr>))"

subsection \<open>LayerObserver\<close>

datatype track_element_observer =
    TimelineElementObserver timeline_element_observer
  | GObjectObserver gobject_observer

text \<open>
  \<^verbatim>\<open>MetaContainerObserver\<close>, the base class, is missing and the spec does not describe
  it; the record holds the state \<^verbatim>\<open>LayerObserver\<close> itself declares.
\<close>

record layer_observer =
  lo_layer :: oid
  lo_priority :: int
  keyframe_observers :: "oid \<rightharpoonup> control_source_observer"
  track_element_observers :: "oid \<rightharpoonup> track_element_observer"
  clip_observers :: "oid \<rightharpoonup> gobject_observer"

type_synonym layer_state = "layer_observer \<times> world"

definition connectToControlSource :: "oid \<Rightarrow> binding \<Rightarrow> layer_state \<Rightarrow> layer_state" where
  "connectToControlSource track_element b s =
     (case s of (lo, w) \<Rightarrow>
        (case control_source_observer_init (binding_control_source b)
                [(''element-name'', PyStr (te_name (element_of (doc w) track_element))),
                 (''property-name'', PyStr (binding_name b))] w of
           (observer, w') \<Rightarrow>
             (lo\<lparr>keyframe_observers :=
                   (keyframe_observers lo)(binding_control_source b \<mapsto> observer)\<rparr>, w')))"

definition disconnectFromControlSource :: "binding \<Rightarrow> layer_state \<Rightarrow> error + layer_state" where
  "disconnectFromControlSource b s =
     (case s of (lo, w) \<Rightarrow>
        (case keyframe_observers lo (binding_control_source b) of
           None \<Rightarrow> Inl KeyError
         | Some observer \<Rightarrow>
             (case control_source_observer_release observer w of
                Inl err \<Rightarrow> Inl err
              | Inr (observer', w') \<Rightarrow>
                  Inr (lo\<lparr>keyframe_observers :=
                          (keyframe_observers lo)(binding_control_source b := None)\<rparr>, w'))))"

fun connectToControlSources :: "oid \<Rightarrow> (string \<times> binding) list \<Rightarrow> layer_state \<Rightarrow> layer_state" where
  "connectToControlSources track_element [] s = s"
| "connectToControlSources track_element ((prop, b) # bs) s =
     connectToControlSources track_element bs (connectToControlSource track_element b s)"

fun disconnectFromControlSources :: "(string \<times> binding) list \<Rightarrow> layer_state \<Rightarrow> error + layer_state" where
  "disconnectFromControlSources [] s = Inr s"
| "disconnectFromControlSources ((prop, b) # bs) s =
     (case disconnectFromControlSource b s of
        Inl err \<Rightarrow> Inl err
      | Inr s' \<Rightarrow> disconnectFromControlSources bs s')"

definition connectToTrackElement :: "string list \<Rightarrow> oid \<Rightarrow> layer_state \<Rightarrow> error + layer_state" where
  "connectToTrackElement props_to_ignore track_element s =
     (case s of (lo, w) \<Rightarrow>
        if te_class (element_of (doc w) track_element) = VideoTransition
        then (let ges_clip = te_parent (element_of (doc w) track_element);
                  ges_layer = clip_layer (clip_of (doc w) ges_clip);
                  w1 = push (TransitionClipAddedAction ges_layer
                               (clip_start (clip_of (doc w) ges_clip))
                               (clip_duration (clip_of (doc w) ges_clip)) track_element) w
              in case gobject_observer_init track_element
                        (element_get_property (doc w1) track_element) TRANSITION_PROPS w1 of
                   Inl err \<Rightarrow> Inl err
                 | Inr (observer, w2) \<Rightarrow>
                     Inr (lo\<lparr>track_element_observers :=
                             (track_element_observers lo)
                               (track_element \<mapsto> GObjectObserver observer)\<rparr>, w2))
        else (case connectToControlSources track_element
                     (te_control_bindings (element_of (doc w) track_element)) (lo, w) of
                (lo1, w1) \<Rightarrow>
                  (let w2 = connect track_element ''control-binding-added''
                              (LayerObserverRef (lo_layer lo)) ''_controlBindingAddedCb'' w1
                   in if te_class (element_of (doc w) track_element) = BaseEffect
                         \<or> te_class (element_of (doc w) track_element) = VideoSource
                      then (case timeline_element_observer_init props_to_ignore track_element w2 of
                              Inl err \<Rightarrow> Inl err
                            | Inr (observer, w3) \<Rightarrow>
                                Inr (lo1\<lparr>track_element_observers :=
                                        (track_element_observers lo1)
                                          (track_element \<mapsto> TimelineElementObserver observer)\<rparr>,
                                     w3))
                      else Inr (lo1, w2))))"

definition track_element_observer_release ::
  "track_element_observer \<Rightarrow> world \<Rightarrow> error + world" where
  "track_element_observer_release observer w =
     (case observer of
        TimelineElementObserver obs \<Rightarrow>
          (case timeline_element_observer_release obs w of
             Inl err \<Rightarrow> Inl err | Inr (obs', w') \<Rightarrow> Inr w')
      | GObjectObserver obs \<Rightarrow>
          (case gobject_observer_release obs w of
             Inl err \<Rightarrow> Inl err | Inr (obs', w') \<Rightarrow> Inr w'))"

definition disconnectFromTrackElement :: "oid \<Rightarrow> layer_state \<Rightarrow> error + layer_state" where
  "disconnectFromTrackElement track_element s =
     (case disconnectFromControlSources
             (te_control_bindings (element_of (doc (snd s)) track_element)) s of
        Inl err \<Rightarrow> Inl err
      | Inr (lo, w) \<Rightarrow>
          (case track_element_observers lo track_element of
             None \<Rightarrow> Inr (lo, w)
           | Some observer \<Rightarrow>
               (case track_element_observer_release observer w of
                  Inl err \<Rightarrow> Inl err
                | Inr w' \<Rightarrow>
                    Inr (lo\<lparr>track_element_observers :=
                            (track_element_observers lo)(track_element := None)\<rparr>, w'))))"

fun connectToTrackElements :: "string list \<Rightarrow> oid list \<Rightarrow> layer_state \<Rightarrow> error + layer_state" where
  "connectToTrackElements props_to_ignore [] s = Inr s"
| "connectToTrackElements props_to_ignore (e # es) s =
     (case connectToTrackElement props_to_ignore e s of
        Inl err \<Rightarrow> Inl err
      | Inr s' \<Rightarrow> connectToTrackElements props_to_ignore es s')"

fun disconnectFromTrackElements :: "oid list \<Rightarrow> layer_state \<Rightarrow> error + layer_state" where
  "disconnectFromTrackElements [] s = Inr s"
| "disconnectFromTrackElements (e # es) s =
     (case disconnectFromTrackElement e s of
        Inl err \<Rightarrow> Inl err
      | Inr s' \<Rightarrow> disconnectFromTrackElements es s')"

definition connectToClip :: "string list \<Rightarrow> oid \<Rightarrow> layer_state \<Rightarrow> error + layer_state" where
  "connectToClip props_to_ignore ges_clip s =
     (case s of (lo, w) \<Rightarrow>
        (let w1 = connect ges_clip ''child-removed'' (LayerObserverRef (lo_layer lo))
                    ''_clipTrackElementRemovedCb''
                    (connect ges_clip ''child-added'' (LayerObserverRef (lo_layer lo))
                       ''_clipTrackElementAddedCb'' w)
         in case connectToTrackElements props_to_ignore
                   (clip_children (clip_of (doc w) ges_clip)) (lo, w1) of
              Inl err \<Rightarrow> Inl err
            | Inr (lo2, w2) \<Rightarrow>
                if clip_is_transition (clip_of (doc w) ges_clip) then Inr (lo2, w2)
                else (case gobject_observer_init ges_clip (clip_get_property (doc w2) ges_clip)
                             [''start'', ''duration'', ''in-point'', ''priority''] w2 of
                        Inl err \<Rightarrow> Inl err
                      | Inr (clip_observer, w3) \<Rightarrow>
                          Inr (lo2\<lparr>clip_observers :=
                                  (clip_observers lo2)(ges_clip \<mapsto> clip_observer)\<rparr>, w3))))"

definition disconnectFromClip :: "oid \<Rightarrow> layer_state \<Rightarrow> error + layer_state" where
  "disconnectFromClip ges_clip s =
     (case s of (lo, w) \<Rightarrow>
        (let w1 = disconnect_by_func ges_clip (LayerObserverRef (lo_layer lo))
                    ''_clipTrackElementRemovedCb''
                    (disconnect_by_func ges_clip (LayerObserverRef (lo_layer lo))
                       ''_clipTrackElementAddedCb'' w)
         in case disconnectFromTrackElements (clip_children (clip_of (doc w) ges_clip)) (lo, w1) of
              Inl err \<Rightarrow> Inl err
            | Inr (lo2, w2) \<Rightarrow>
                if clip_is_transition (clip_of (doc w) ges_clip) then Inr (lo2, w2)
                else (case clip_observers lo2 ges_clip of
                        None \<Rightarrow> Inl KeyError
                      | Some clip_observer \<Rightarrow>
                          (case gobject_observer_release clip_observer w2 of
                             Inl err \<Rightarrow> Inl err
                           | Inr (obs', w3) \<Rightarrow>
                               Inr (lo2\<lparr>clip_observers := (clip_observers lo2)(ges_clip := None)\<rparr>,
                                    w3)))))"

fun connectToClips :: "string list \<Rightarrow> oid list \<Rightarrow> layer_state \<Rightarrow> error + layer_state" where
  "connectToClips props_to_ignore [] s = Inr s"
| "connectToClips props_to_ignore (c # cs) s =
     (case connectToClip props_to_ignore c s of
        Inl err \<Rightarrow> Inl err
      | Inr s' \<Rightarrow> connectToClips props_to_ignore cs s')"

definition layer_observer_init :: "string list \<Rightarrow> oid \<Rightarrow> world \<Rightarrow> error + layer_state" where
  "layer_observer_init props_to_ignore ges_layer w =
     connectToClips props_to_ignore (layer_clips (layer_of (doc w) ges_layer))
       (\<lparr>lo_layer = ges_layer,
         lo_priority = layer_priority (layer_of (doc w) ges_layer),
         keyframe_observers = Map.empty,
         track_element_observers = Map.empty,
         clip_observers = Map.empty\<rparr>,
        connect ges_layer ''notify::priority'' (LayerObserverRef ges_layer) ''__layer_moved_cb''
          (connect ges_layer ''clip-removed'' (LayerObserverRef ges_layer) ''_clipRemovedCb''
             (connect ges_layer ''clip-added'' (LayerObserverRef ges_layer) ''_clipAddedCb'' w)))"

definition controlBindingAddedCb :: "oid \<Rightarrow> binding \<Rightarrow> layer_state \<Rightarrow> layer_state" where
  "controlBindingAddedCb track_element b s =
     (case connectToControlSource track_element b s of
        (lo, w) \<Rightarrow>
          (lo, push (ControlSourceSetAction
                 [(''element-name'', PyStr (te_name (element_of (doc w) track_element))),
                  (''property-name'', PyStr (binding_name b))]) w))"

definition clipAddedCb :: "string list \<Rightarrow> oid \<Rightarrow> oid \<Rightarrow> layer_state \<Rightarrow> error + layer_state" where
  "clipAddedCb props_to_ignore l c s =
     (case connectToClip props_to_ignore c s of
        Inl err \<Rightarrow> Inl err
      | Inr (lo, w) \<Rightarrow>
          if clip_is_transition (clip_of (doc w) c) then Inr (lo, w)
          else Inr (lo, push (ClipAdded l c) w))"

definition clipRemovedCb :: "oid \<Rightarrow> oid \<Rightarrow> layer_state \<Rightarrow> error + layer_state" where
  "clipRemovedCb l c s =
     (case disconnectFromClip c s of
        Inl err \<Rightarrow> Inl err
      | Inr (lo, w) \<Rightarrow>
          if clip_is_transition (clip_of (doc w) c)
          then (case new_TransitionClipRemovedAction (doc w) l c of
                  Inl err \<Rightarrow> Inl err
                | Inr None \<Rightarrow> Inr (lo, w)
                | Inr (Some a) \<Rightarrow> Inr (lo, push a w))
          else Inr (lo, push (ClipRemoved l c []) w))"

definition clipTrackElementAddedCb ::
  "string list \<Rightarrow> oid \<Rightarrow> oid \<Rightarrow> layer_state \<Rightarrow> error + layer_state" where
  "clipTrackElementAddedCb props_to_ignore c ges_track_element s =
     (case connectToTrackElement props_to_ignore ges_track_element s of
        Inl err \<Rightarrow> Inl err
      | Inr (lo, w) \<Rightarrow>
          if te_class (element_of (doc w) ges_track_element) = BaseEffect
          then (case new_TrackElementAction EffectAddedAction props_to_ignore (doc w) c
                       ges_track_element of
                  Inl err \<Rightarrow> Inl err
                | Inr (a, d') \<Rightarrow> Inr (lo, push a (w\<lparr>doc := d'\<rparr>)))
          else Inr (lo, w))"

definition clipTrackElementRemovedCb ::
  "string list \<Rightarrow> oid \<Rightarrow> oid \<Rightarrow> layer_state \<Rightarrow> error + layer_state" where
  "clipTrackElementRemovedCb props_to_ignore c ges_track_element s =
     (case disconnectFromTrackElement ges_track_element s of
        Inl err \<Rightarrow> Inl err
      | Inr (lo, w) \<Rightarrow>
          if te_class (element_of (doc w) ges_track_element) = BaseEffect
          then (case new_TrackElementAction EffectRemovedAction props_to_ignore (doc w) c
                       ges_track_element of
                  Inl err \<Rightarrow> Inl err
                | Inr (a, d') \<Rightarrow> Inr (lo, push a (w\<lparr>doc := d'\<rparr>)))
          else Inr (lo, w))"

definition trackElementActiveChangedCb :: "oid \<Rightarrow> bool \<Rightarrow> layer_state \<Rightarrow> layer_state" where
  "trackElementActiveChangedCb add_effect_action active s =
     (case s of (lo, w) \<Rightarrow>
        (lo, push (new_ActivePropertyChanged add_effect_action active) w))"

definition layer_moved_cb :: "oid \<Rightarrow> layer_state \<Rightarrow> layer_state" where
  "layer_moved_cb ges_layer s =
     (case s of (lo, w) \<Rightarrow>
        (let current = layer_priority (layer_of (doc w) ges_layer)
         in (lo\<lparr>lo_priority := current\<rparr>,
             push (LayerMoved ges_layer (lo_priority lo) current) w)))"

subsection \<open>TimelineObserver\<close>

record timeline_observer =
  layer_observers :: "oid \<rightharpoonup> layer_observer"

type_synonym timeline_state = "timeline_observer \<times> world"

definition connect_to_layer :: "string list \<Rightarrow> oid \<Rightarrow> timeline_state \<Rightarrow> error + timeline_state" where
  "connect_to_layer props_to_ignore ges_layer s =
     (case s of (tobs, w) \<Rightarrow>
        (case layer_observer_init props_to_ignore ges_layer (push (LayerAdded ges_layer) w) of
           Inl err \<Rightarrow> Inl err
         | Inr (layer_observer, w') \<Rightarrow>
             Inr (tobs\<lparr>layer_observers := (layer_observers tobs)(ges_layer \<mapsto> layer_observer)\<rparr>,
                  w')))"

fun connect_to_layers :: "string list \<Rightarrow> oid list \<Rightarrow> timeline_state \<Rightarrow> error + timeline_state" where
  "connect_to_layers props_to_ignore [] s = Inr s"
| "connect_to_layers props_to_ignore (l # ls) s =
     (case connect_to_layer props_to_ignore l s of
        Inl err \<Rightarrow> Inl err
      | Inr s' \<Rightarrow> connect_to_layers props_to_ignore ls s')"

text \<open>
  The timeline is the one object of the store without an identity of its own; its
  signals are recorded on the object \<open>timeline_oid\<close>.
\<close>

definition timeline_oid :: oid where
  "timeline_oid = 0"

definition timeline_observer_init :: "string list \<Rightarrow> world \<Rightarrow> error + timeline_state" where
  "timeline_observer_init props_to_ignore w =
     (case connect_to_layers props_to_ignore (timeline_layers (doc w))
             (\<lparr>layer_observers = Map.empty\<rparr>, w) of
        Inl err \<Rightarrow> Inl err
      | Inr (tobs, w') \<Rightarrow>
          Inr (tobs,
               connect timeline_oid ''layer-removed'' TimelineObserverRef ''__layer_removed_cb''
                 (connect timeline_oid ''layer-added'' TimelineObserverRef ''__layer_added_cb''
                    w')))"

definition layer_added_cb :: "string list \<Rightarrow> oid \<Rightarrow> timeline_state \<Rightarrow> error + timeline_state" where
  "layer_added_cb props_to_ignore ges_layer s = connect_to_layer props_to_ignore ges_layer s"

definition layer_removed_cb :: "oid \<Rightarrow> timeline_state \<Rightarrow> timeline_state" where
  "layer_removed_cb ges_layer s =
     (case s of (tobs, w) \<Rightarrow> (tobs, push (LayerRemoved ges_layer) w))"

section \<open>Round trips and log filters\<close>

definition do_then_undo :: "action \<Rightarrow> document \<Rightarrow> error + (action \<times> document)" where
  "do_then_undo a d =
     (case do_action a d of
        Inl err \<Rightarrow> Inl err
      | Inr (a', d') \<Rightarrow> undo_action a' d')"



text \<open>
  The tracked fields of two documents agree: the same layers, the same clips in every
  layer, the same children in every clip, the same priority of every layer, the same
  child property values and active flag of every element that exists in the first
  document, the same keyframes in every control source.
\<close>

definition same_tracked_fields :: "document \<Rightarrow> document \<Rightarrow> bool" where
  "same_tracked_fields d d' =
     (set (timeline_layers d') = set (timeline_layers d)
      \<and> (\<forall>l. set (layer_clips (layer_of d' l)) = set (layer_clips (layer_of d l))
             \<and> layer_priority (layer_of d' l) = layer_priority (layer_of d l))
      \<and> (\<forall>c. clip_children (clip_of d' c) = clip_children (clip_of d c))
      \<and> (\<forall>e. e < next_oid d \<longrightarrow>
             te_child_values (element_of d' e) = te_child_values (element_of d e)
             \<and> te_active (element_of d' e) = te_active (element_of d e))
      \<and> keyframes_of d' = keyframes_of d)"

fun is_LayerAdded :: "action \<Rightarrow> bool" where
  "is_LayerAdded (LayerAdded l) = True"
| "is_LayerAdded a = False"

fun is_ClipAdded :: "action \<Rightarrow> bool" where
  "is_ClipAdded (ClipAdded l c) = True"
| "is_ClipAdded a = False"

text \<open>
  What \<^verbatim>\<open>_connectToTrackElement\<close> pushes for a track element (a
  \<open>TransitionClipAddedAction\<close> for a video transition, nothing otherwise), collected over
  the children of a clip and over the clips of a layer.
\<close>

definition transition_actions_of_element :: "document \<Rightarrow> oid \<Rightarrow> action list" where
  "transition_actions_of_element d e =
     (if te_class (element_of d e) = VideoTransition
      then [TransitionClipAddedAction
              (clip_layer (clip_of d (te_parent (element_of d e))))
              (clip_start (clip_of d (te_parent (element_of d e))))
              (clip_duration (clip_of d (te_parent (element_of d e)))) e]
      else [])"

definition transition_actions_of_clip :: "document \<Rightarrow> oid \<Rightarrow> action list" where
  "transition_actions_of_clip d c =
     concat (map (transition_actions_of_element d) (clip_children (clip_of d c)))"

definition transition_actions_of_layer :: "document \<Rightarrow> oid \<Rightarrow> action list" where
  "transition_actions_of_layer d l =
     concat (map (transition_actions_of_clip d) (layer_clips (layer_of d l)))"

text \<open>
  Between two states of the world: the document is the same, the log has grown by the
  given actions, and every connection is still there.
\<close>

definition constructed :: "world \<Rightarrow> world \<Rightarrow> action list \<Rightarrow> bool" where
  "constructed w w' xs =
     (doc w' = doc w \<and> action_log w' = action_log w @ xs
      \<and> set (connections w) \<subseteq> set (connections w'))"

section \<open>Example documents\<close>

definition blank_track_element :: track_element where
  "blank_track_element =
     \<lparr>te_class = OtherTrackElement, te_name = [], te_asset = [], te_active = True,
      te_parent = 0, te_children_properties = [], te_child_values = Map.empty,
      te_gobject_props = Map.empty, te_control_bindings = []\<rparr>"

definition blank_clip :: clip where
  "blank_clip =
     \<lparr>clip_is_transition = False, clip_name = [], clip_type_name = [],
      clip_asset_id = [], clip_layer = 0, clip_start = 0, clip_duration = 0,
      clip_in_point = 0, clip_priority = 0, clip_children = []\<rparr>"

definition blank_layer :: layer where
  "blank_layer =
     \<lparr>layer_priority = 0, layer_auto_transition = False, layer_clips = [],
      layer_splitting_object = None\<rparr>"

definition blank_document :: document where
  "blank_document =
     \<lparr>timeline_layers = [], timeline_ui = NoUiAttribute,
      layer_of = (\<lambda>_. blank_layer), clip_of = (\<lambda>_. blank_clip),
      element_of = (\<lambda>_. blank_track_element), keyframes_of = (\<lambda>_. []),
      asset_extract = (\<lambda>_. blank_track_element), next_oid = 100,
      generated_names = (\<lambda>_. ''clip''), name_counter = 0, commits = 0,
      object_updates = [], action_track_element = (\<lambda>_. None)\<rparr>"

definition blank_world :: world where
  "blank_world = \<lparr>doc = blank_document, action_log = [], connections = []\<rparr>"

text \<open>An effect with one child property, and an observer whose snapshot is older.\<close>

definition alpha_pspec :: pspec where
  "alpha_pspec =
     \<lparr>owner_type_name = ''GstAlpha'', pspec_name = ''alpha'', param_writable = True\<rparr>"

definition alpha_world :: world where
  "alpha_world =
     blank_world\<lparr>doc := blank_document\<lparr>element_of := (\<lambda>_. blank_track_element)
       (5 := blank_track_element
          \<lparr>te_class := BaseEffect, te_children_properties := [alpha_pspec],
           te_child_values := [''GstAlpha::alpha'' \<mapsto> PyInt 2]\<rparr>)\<rparr>\<rparr>"

definition alpha_observer :: timeline_element_observer where
  "alpha_observer =
     \<lparr>teo_element = Some 5, teo_properties = [''GstAlpha::alpha'' \<mapsto> PyInt 1]\<rparr>"

text \<open>A control source observer whose snapshot holds one keyframe.\<close>

definition snapshot_observer :: control_source_observer where
  "snapshot_observer =
     \<lparr>cso_control_source = Some 7, cso_action_info = [],
      cso_keyframes = [5 \<mapsto> (5, PyInt 1)]\<rparr>"

text \<open>The removal of a transition on layer 9.\<close>

definition other_layer_transition :: transition_removed where
  "other_layer_transition =
     \<lparr>tr_layer = 9, tr_start = 700, tr_duration = 50, tr_track_element = 4,
      tr_properties = []\<rparr>"

text \<open>A layer in the timeline that holds one clip of ten seconds; no edit in progress.\<close>

definition scenario_document :: document where
  "scenario_document =
     blank_document
       \<lparr>timeline_layers := [1],
        timeline_ui := Ui None,
        layer_of := (\<lambda>_. blank_layer)
          (1 := blank_layer\<lparr>layer_priority := 0, layer_clips := [2]\<rparr>),
        clip_of := (\<lambda>_. blank_clip)
          (2 := blank_clip\<lparr>clip_name := ''uriclip0'', clip_type_name := ''GESUriClip'',
                 clip_asset_id := ''file:///a.ogv'', clip_layer := 1, clip_start := 0,
                 clip_duration := 10000000000, clip_in_point := 0\<rparr>)\<rparr>"

text \<open>A layer observer that observes nothing yet, and a binding it has no observer for.\<close>

definition bare_layer_observer :: layer_observer where
  "bare_layer_observer =
     \<lparr>lo_layer = 1, lo_priority = 0, keyframe_observers = Map.empty,
      track_element_observers = Map.empty, clip_observers = Map.empty\<rparr>"

definition volume_binding :: binding where
  "volume_binding = \<lparr>binding_name = ''volume'', binding_control_source = 7\<rparr>"

text \<open>A timeline with one empty layer, and the state of its observers once constructed.\<close>

definition one_layer_world :: world where
  "one_layer_world = blank_world\<lparr>doc := blank_document\<lparr>timeline_layers := [1]\<rparr>\<rparr>"

definition one_layer_observed :: timeline_state where
  "one_layer_observed =
     (\<lparr>layer_observers = [1 \<mapsto> bare_layer_observer]\<rparr>,
      one_layer_world
        \<lparr>action_log := [LayerAdded 1],
         connections :=
           [(1, ''clip-added'', LayerObserverRef 1, ''_clipAddedCb''),
            (1, ''clip-removed'', LayerObserverRef 1, ''_clipRemovedCb''),
            (1, ''notify::priority'', LayerObserverRef 1, ''__layer_moved_cb''),
            (timeline_oid, ''layer-added'', TimelineObserverRef, ''__layer_added_cb''),
            (timeline_oid, ''layer-removed'', TimelineObserverRef, ''__layer_removed_cb'')]\<rparr>)"

text \<open>
  A layer with an ordinary clip and two transition clips of the same window: the first
  holds the audio transition only, the second a video transition.
\<close>

definition transition_document :: document where
  "transition_document =
     blank_document
       \<lparr>timeline_layers := [1],
        layer_of := (\<lambda>_. blank_layer)(1 := blank_layer\<lparr>layer_clips := [2, 3, 4]\<rparr>),
        clip_of := (\<lambda>_. blank_clip)
          (2 := blank_clip\<lparr>clip_layer := 1, clip_start := 0, clip_duration := 7, clip_children := [9]\<rparr>,
           3 := blank_clip\<lparr>clip_is_transition := True, clip_layer := 1, clip_start := 5,
                  clip_duration := 2, clip_children := [10]\<rparr>,
           4 := blank_clip\<lparr>clip_is_transition := True, clip_layer := 1, clip_start := 5,
                  clip_duration := 2, clip_children := [11, 12]\<rparr>),
        element_of := (\<lambda>_. blank_track_element)
          (12 := blank_track_element\<lparr>te_class := VideoTransition, te_parent := 4\<rparr>)\<rparr>"



text \<open>The observers of the one-clip layer, once constructed.\<close>

definition scenario_world :: world where
  "scenario_world = blank_world\<lparr>doc := scenario_document\<rparr>"

definition scenario_layer_observed :: layer_state where
  "scenario_layer_observed =
     (bare_layer_observer
        \<lparr>clip_observers :=
           [2 \<mapsto> \<lparr>goo_gobject = Some 2,
                   goo_property_names = [''start'', ''duration'', ''in-point'', ''priority''],
                   goo_properties =
                     [''start'' \<mapsto> PyInt 0, ''duration'' \<mapsto> PyInt 10000000000,
                      ''in-point'' \<mapsto> PyInt 0, ''priority'' \<mapsto> PyInt 0]\<rparr>]\<rparr>,
      scenario_world
        \<lparr>connections :=
           [(1, ''clip-added'', LayerObserverRef 1, ''_clipAddedCb''),
            (1, ''clip-removed'', LayerObserverRef 1, ''_clipRemovedCb''),
            (1, ''notify::priority'', LayerObserverRef 1, ''__layer_moved_cb''),
            (2, ''child-added'', LayerObserverRef 1, ''_clipTrackElementAddedCb''),
            (2, ''child-removed'', LayerObserverRef 1, ''_clipTrackElementRemovedCb''),
            (2, ''notify::start'', GObjectObserverRef 2, ''_property_changed_cb''),
            (2, ''notify::duration'', GObjectObserverRef 2, ''_property_changed_cb''),
            (2, ''notify::in-point'', GObjectObserverRef 2, ''_property_changed_cb''),
            (2, ''notify::priority'', GObjectObserverRef 2, ''_property_changed_cb'')]\<rparr>)"

text \<open>The layer of the two transition clips, with the properties of the video transition.\<close>

definition video_transition_world :: world where
  "video_transition_world =
     blank_world\<lparr>doc := transition_document
       \<lparr>element_of := (element_of transition_document)
          (12 := (element_of transition_document 12)
             \<lparr>te_gobject_props :=
                [''border'' \<mapsto> PyInt 0, ''invert'' \<mapsto> PyBool False,
                 ''transition-type'' \<mapsto> PyInt 1]\<rparr>)\<rparr>\<rparr>"

text \<open>The clip 2 holds the effect 9, which the effect action 50 refers to.\<close>

definition effect_document :: document where
  "effect_document =
     transition_document\<lparr>action_track_element := (\<lambda>_. None)(50 := Some 9)\<rparr>"

section \<open>Properties of the observers' callbacks\<close>

text \<open>
  The constructor snapshots every child property that is not ignored, so a notification
  for such a property finds its old value.
\<close>

lemma snapshot_properties_keeps:
  "snapshot_properties ign d e ps m = Inr props \<Longrightarrow> m n \<noteq> None \<Longrightarrow> props n \<noteq> None"
proof (induction ps arbitrary: m)
  case Nil
  then show ?case by simp
next
  case (Cons p ps)
  show ?case
  proof (cases "pspec_name p \<in> set ign")
    case True
    with Cons.prems Cons.IH [of m] show ?thesis by simp
  next
    case False
    with Cons.prems obtain v where
      v: "get_child_property d e (child_property_name p) = Some v"
      and rest: "snapshot_properties ign d e ps (m(child_property_name p \<mapsto> v)) = Inr props"
      by (auto split: option.splits)
    from Cons.prems(2) have "(m(child_property_name p \<mapsto> v)) n \<noteq> None" by simp
    with Cons.IH [OF rest] show ?thesis by blast
  qed
qed

lemma snapshot_properties_covers:
  "snapshot_properties ign d e ps m = Inr props \<Longrightarrow> p \<in> set ps
     \<Longrightarrow> pspec_name p \<notin> set ign \<Longrightarrow> props (child_property_name p) \<noteq> None"
proof (induction ps arbitrary: m)
  case Nil
  then show ?case by simp
next
  case (Cons q ps)
  show ?case
  proof (cases "pspec_name q \<in> set ign")
    case True
    with Cons.prems have rest: "snapshot_properties ign d e ps m = Inr props"
      and "p \<in> set ps" by auto
    with Cons.IH Cons.prems(3) show ?thesis by blast
  next
    case False
    with Cons.prems(1) obtain v where
      rest: "snapshot_properties ign d e ps (m(child_property_name q \<mapsto> v)) = Inr props"
      by (auto split: option.splits)
    show ?thesis
    proof (cases "p = q")
      case True
      have "(m(child_property_name q \<mapsto> v)) (child_property_name q) \<noteq> None" by simp
      with snapshot_properties_keeps [OF rest] True show ?thesis by blast
    next
      case False
      with Cons.prems(2) have "p \<in> set ps" by simp
      with Cons.IH [OF rest] Cons.prems(3) show ?thesis by blast
    qed
  qed
qed

lemma timeline_element_observer_init_covers:
  "timeline_element_observer_init ign e w = Inr (obs, w') \<Longrightarrow>
     p \<in> set (list_children_properties (doc w) e) \<Longrightarrow> pspec_name p \<notin> set ign
     \<Longrightarrow> teo_properties obs (child_property_name p) \<noteq> None"
  by (auto simp: timeline_element_observer_init_def split: sum.splits
      dest: snapshot_properties_covers)

text \<open>
  C6. A property-change notification for a property that is in \<^verbatim>\<open>PROPS_TO_IGNORE\<close> or
  has a control binding pushes nothing and leaves the observer's snapshot as it was.
  Any other notification, for a property the observer has snapshotted and the element
  can read, pushes exactly one \<open>TrackElementPropertyChanged\<close> whose old value is the
  snapshotted one and whose new value is the current one, and stores the new value in
  the snapshot.
\<close>

theorem property_changed_cb_pushes:
  "(pspec_name p \<in> set props_to_ignore
      \<or> get_control_binding (doc w) e (child_property_name p) \<noteq> None
    \<longrightarrow> property_changed_cb props_to_ignore obs w e p = Inr (obs, w))
   \<and> (pspec_name p \<notin> set props_to_ignore
      \<and> get_control_binding (doc w) e (child_property_name p) = None
      \<and> teo_properties obs (child_property_name p) = Some old_value
      \<and> get_child_property (doc w) e (child_property_name p) = Some new_value
    \<longrightarrow> property_changed_cb props_to_ignore obs w e p =
          Inr (obs\<lparr>teo_properties := (teo_properties obs)(child_property_name p \<mapsto> new_value)\<rparr>,
               w\<lparr>action_log := action_log w @
                    [TrackElementPropertyChanged e (child_property_name p) old_value new_value]\<rparr>))"
  by (auto simp: property_changed_cb_def push_def Let_def)

theorem property_changed_cb_pushes_witness:
  "property_changed_cb [''alpha''] alpha_observer alpha_world 5 alpha_pspec =
     Inr (alpha_observer, alpha_world)
   \<and> property_changed_cb [''name''] alpha_observer alpha_world 5 alpha_pspec =
       Inr (alpha_observer\<lparr>teo_properties := [''GstAlpha::alpha'' \<mapsto> PyInt 2]\<rparr>,
            alpha_world\<lparr>action_log :=
              [TrackElementPropertyChanged 5 ''GstAlpha::alpha'' (PyInt 1) (PyInt 2)]\<rparr>)"
  using property_changed_cb_pushes [of alpha_pspec "[''alpha'']" alpha_world 5 alpha_observer]
    property_changed_cb_pushes
      [of alpha_pspec "[''name'']" alpha_world 5 alpha_observer "PyInt 1" "PyInt 2"]
  by (simp add: alpha_observer_def alpha_world_def alpha_pspec_def child_property_name_def
      get_control_binding_def get_child_property_def blank_track_element_def blank_world_def
      blank_document_def)

text \<open>
  The snapshot of a \<open>ControlSourceObserver\<close> is written from \<^verbatim>\<open>get_all()\<close> and from the
  keyframes the added and changed notifications deliver, so it holds, at a keyframe's
  timestamp, the keyframe as the control source last reported it.
\<close>

lemma snapshot_fold_other:
  "t \<notin> fst ` set ks \<Longrightarrow> fold (\<lambda>k m. m(fst k \<mapsto> k)) ks m t = m t"
  by (induction ks arbitrary: m) auto

lemma snapshot_fold_holds:
  "distinct (map fst ks) \<Longrightarrow> k \<in> set ks \<Longrightarrow>
     fold (\<lambda>k m. m(fst k \<mapsto> k)) ks m (fst k) = Some k"
proof (induction ks arbitrary: m)
  case Nil
  then show ?case by simp
next
  case (Cons x xs)
  show ?case
  proof (cases "k = x")
    case True
    from Cons.prems(1) have "fst x \<notin> fst ` set xs" by simp
    then have "fold (\<lambda>k m. m(fst k \<mapsto> k)) xs (m(fst x \<mapsto> x)) (fst x) =
               (m(fst x \<mapsto> x)) (fst x)"
      by (rule snapshot_fold_other)
    also have "\<dots> = Some x" by simp
    finally show ?thesis using True by (simp del: fun_upd_apply)
  next
    case False
    with Cons.prems have "distinct (map fst xs)" "k \<in> set xs" by auto
    then have "fold (\<lambda>k m. m(fst k \<mapsto> k)) xs (m(fst x \<mapsto> x)) (fst k) = Some k"
      by (rule Cons.IH)
    then show ?thesis by (simp del: fun_upd_apply)
  qed
qed

lemma control_source_observer_init_in_sync:
  assumes "distinct (map fst (control_source_get_all (doc w) cs))"
    and "k \<in> set (control_source_get_all (doc w) cs)"
  shows "cso_keyframes (fst (control_source_observer_init cs info w)) (fst k) = Some k"
proof -
  from assms have "fold (\<lambda>k m. m(fst k \<mapsto> k)) (control_source_get_all (doc w) cs) Map.empty
                     (fst k) = Some k"
    by (rule snapshot_fold_holds)
  then show ?thesis by (simp add: control_source_observer_init_def del: fun_upd_apply)
qed

lemma keyframe_added_cb_in_sync:
  "cso_keyframes (fst (keyframe_added_cb obs w cs k)) (fst k) = Some k"
  by (simp add: keyframe_added_cb_def)

lemma keyframe_moved_cb_in_sync:
  "keyframe_moved_cb obs w cs k = Inr (obs', w') \<Longrightarrow> cso_keyframes obs' (fst k) = Some k"
  by (auto simp: keyframe_moved_cb_def split: option.splits)

text \<open>
  C5. On a keyframe-removed notification for a keyframe the snapshot holds, the observer
  pushes exactly one \<open>KeyframeRemovedAction\<close> carrying the pair of the snapshot and
  deletes the timestamp from the snapshot. The live control source, which has lost the
  keyframe already, is not read: the result is the same for every document.
\<close>

theorem keyframe_removed_cb_pushes_snapshot:
  "cso_keyframes obs t = Some (t, v) \<longrightarrow>
     keyframe_removed_cb obs w control_source (t, v) =
       Inr (obs\<lparr>cso_keyframes := (cso_keyframes obs)(t := None)\<rparr>,
            w\<lparr>action_log := action_log w @
                 [KeyframeRemovedAction control_source (the (cso_keyframes obs t))
                    (cso_action_info obs)]\<rparr>)"
  by (simp add: keyframe_removed_cb_def push_def)

theorem keyframe_removed_cb_pushes_snapshot_witness:
  "cso_keyframes snapshot_observer 5 = Some (5, PyInt 1)
   \<and> control_source_get_all (doc blank_world) 7 = []
   \<and> keyframe_removed_cb snapshot_observer blank_world 7 (5, PyInt 1) =
       Inr (snapshot_observer\<lparr>cso_keyframes := Map.empty\<rparr>,
            blank_world\<lparr>action_log := [KeyframeRemovedAction 7 (5, PyInt 1) []]\<rparr>)"
  using keyframe_removed_cb_pushes_snapshot [of snapshot_observer 5 "PyInt 1" blank_world 7]
  by (simp add: snapshot_observer_def blank_world_def blank_document_def
      control_source_get_all_def)

section \<open>Properties of the actions\<close>

text \<open>
  C2, as the spec states it, fails: \<^verbatim>\<open>ClipRemoved.expand\<close> compares neither layer nor
  time window. A \<open>ClipRemoved\<close> on layer 1 absorbs the removal of a transition on
  layer 9.
\<close>

theorem clip_removed_expand_counterexample:
  "clip_removed_expand 1 2 [] (TransitionClipRemovedAction other_layer_transition) =
     (True, ClipRemoved 1 2 [other_layer_transition])
   \<and> tr_layer other_layer_transition \<noteq> 1"
  by (simp add: other_layer_transition_def)

text \<open>
  C2, amended. \<^verbatim>\<open>ClipRemoved.expand\<close> returns true exactly when the candidate is a
  \<open>TransitionClipRemovedAction\<close>, whatever its layer and time window, and then appends
  it to the absorbed actions; for a candidate of any other kind it returns false and
  leaves the \<open>ClipRemoved\<close> as it was. \<^verbatim>\<open>ClipRemoved.undo\<close> adds the clip back, commits,
  and then replays the undo of every absorbed action in the order of absorption.
\<close>

theorem clip_removed_expand_absorbs:
  "fst (clip_removed_expand l c trs candidate) = (\<exists>tr. candidate = TransitionClipRemovedAction tr)
   \<and> (\<forall>tr. candidate = TransitionClipRemovedAction tr \<longrightarrow>
         snd (clip_removed_expand l c trs candidate) = ClipRemoved l c (trs @ [tr]))
   \<and> ((\<forall>tr. candidate \<noteq> TransitionClipRemovedAction tr) \<longrightarrow>
         snd (clip_removed_expand l c trs candidate) = ClipRemoved l c trs)
   \<and> (commit_through_layer l (add_clip l c (set_name_None c d)) = Inr d' \<longrightarrow>
         undo_action (ClipRemoved l c trs) d =
           Inr (ClipRemoved l c trs, transition_removed_undo_all trs d'))"
  by (cases candidate) auto

theorem clip_removed_expand_absorbs_witness:
  "clip_removed_expand 1 2 [] (TransitionClipRemovedAction other_layer_transition) =
     (True, ClipRemoved 1 2 [other_layer_transition])
   \<and> clip_removed_expand 1 2 [] (LayerAdded 3) = (False, ClipRemoved 1 2 [])
   \<and> undo_action (ClipRemoved 1 2 [other_layer_transition]) scenario_document =
       Inr (ClipRemoved 1 2 [other_layer_transition],
            transition_removed_undo_all [other_layer_transition]
              (commit_timeline (add_clip 1 2 (set_name_None 2 scenario_document))))"
  using clip_removed_expand_absorbs
      [of 1 2 "[]" "TransitionClipRemovedAction other_layer_transition"]
    clip_removed_expand_absorbs [of 1 2 "[]" "LayerAdded 3"]
    clip_removed_expand_absorbs
      [where l = 1 and c = 2 and trs = "[other_layer_transition]" and d = scenario_document
         and d' = "commit_timeline (add_clip 1 2 (set_name_None 2 scenario_document))"]
  by (simp add: prod_eq_iff commit_through_layer_def layer_in_timeline_def add_clip_def
      set_name_None_def scenario_document_def blank_document_def)

text \<open>
  C9. \<^verbatim>\<open>ClipAdded.asScenarioAction\<close> returns no record when the layer is mid-split or
  the timeline's UI has an editing context; otherwise it returns the \<open>add-clip\<close>
  record with the clip's name, the layer's priority, the asset id, the type, and start,
  in-point and duration as the floats of the nanosecond values divided by
  \<^verbatim>\<open>Gst.SECOND\<close>.
\<close>

theorem clip_added_asScenarioAction_record:
  "(layer_splitting_object (layer_of d l) = Some True
      \<or> (l \<in> set (timeline_layers d) \<and> (\<exists>ctx. timeline_ui d = Ui (Some ctx)))
    \<longrightarrow> clip_added_asScenarioAction d l c = None)
   \<and> (\<not> (layer_splitting_object (layer_of d l) = Some True
          \<or> (l \<in> set (timeline_layers d) \<and> (\<exists>ctx. timeline_ui d = Ui (Some ctx))))
    \<longrightarrow> clip_added_asScenarioAction d l c =
          Some (''add-clip'',
            [(''name'', PyStr (clip_name (clip_of d c))),
             (''layer-priority'', PyInt (layer_priority (layer_of d l))),
             (''asset-id'', PyStr (clip_asset_id (clip_of d c))),
             (''type'', PyStr (clip_type_name (clip_of d c))),
             (''start'', PyFloatDiv (clip_start (clip_of d c)) 1000000000),
             (''inpoint'', PyFloatDiv (clip_in_point (clip_of d c)) 1000000000),
             (''duration'', PyFloatDiv (clip_duration (clip_of d c)) 1000000000)]))"
  by (auto simp: clip_added_asScenarioAction_def editing_in_progress_def
      timeline_ui_of_layer_def layer_in_timeline_def Gst_SECOND_def split: ui_attribute.splits)

theorem clip_added_asScenarioAction_record_witness:
  "clip_added_asScenarioAction (scenario_document\<lparr>timeline_ui := Ui (Some 8)\<rparr>) 1 2 = None
   \<and> clip_added_asScenarioAction scenario_document 1 2 =
       Some (''add-clip'',
         [(''name'', PyStr ''uriclip0''), (''layer-priority'', PyInt 0),
          (''asset-id'', PyStr ''file:///a.ogv''), (''type'', PyStr ''GESUriClip''),
          (''start'', PyFloatDiv 0 1000000000), (''inpoint'', PyFloatDiv 0 1000000000),
          (''duration'', PyFloatDiv 10000000000 1000000000)])"
  using clip_added_asScenarioAction_record
      [of "scenario_document\<lparr>timeline_ui := Ui (Some 8)\<rparr>" 1 2]
    clip_added_asScenarioAction_record [of scenario_document 1 2]
  by (simp add: scenario_document_def blank_document_def blank_layer_def blank_clip_def)

section \<open>Properties of the layer and timeline observers\<close>

lemma disconnectFromControlSource_keeps_track_element_observers:
  "disconnectFromControlSource b (lo, w) = Inr (lo', w')
     \<Longrightarrow> track_element_observers lo' = track_element_observers lo"
  by (auto simp: disconnectFromControlSource_def split: option.splits sum.splits)

lemma disconnectFromControlSources_keeps_track_element_observers:
  "disconnectFromControlSources bs (lo, w) = Inr (lo', w')
     \<Longrightarrow> track_element_observers lo' = track_element_observers lo"
proof (induction bs arbitrary: lo w)
  case Nil
  then show ?case by simp
next
  case (Cons pb bs)
  obtain pn b where pb: "pb = (pn, b)" by (cases pb)
  from Cons.prems pb obtain lo1 w1 where
    step: "disconnectFromControlSource b (lo, w) = Inr (lo1, w1)"
    and rest: "disconnectFromControlSources bs (lo1, w1) = Inr (lo', w')"
    by (auto split: sum.splits)
  from Cons.IH [OF rest] disconnectFromControlSource_keeps_track_element_observers [OF step]
  show ?case by simp
qed

text \<open>
  C8, as the spec states it, fails: \<^verbatim>\<open>_disconnectFromControlSource\<close> pops the control
  source from \<^verbatim>\<open>keyframe_observers\<close> without a default, so detaching a binding whose
  observer is absent raises KeyError.
\<close>

theorem disconnectFromControlSource_counterexample:
  "disconnectFromControlSource volume_binding (bare_layer_observer, blank_world) = Inl KeyError"
  by (simp add: disconnectFromControlSource_def bare_layer_observer_def)

text \<open>
  C8, amended. Detaching a track element that has no registered observer releases
  nothing beyond the observers of its control bindings; with no control bindings it is a
  silent no-op that leaves all state unchanged. Detaching a control binding whose
  \<open>ControlSourceObserver\<close> is absent raises KeyError.
\<close>

theorem disconnect_absent_observer:
  "(track_element_observers lo e = None \<longrightarrow>
      disconnectFromTrackElement e (lo, w) =
        disconnectFromControlSources (te_control_bindings (element_of (doc w) e)) (lo, w))
   \<and> (track_element_observers lo e = None \<and> te_control_bindings (element_of (doc w) e) = []
      \<longrightarrow> disconnectFromTrackElement e (lo, w) = Inr (lo, w))
   \<and> (keyframe_observers lo (binding_control_source b) = None
      \<longrightarrow> disconnectFromControlSource b (lo, w) = Inl KeyError)"
proof -
  have "disconnectFromTrackElement e (lo, w) =
        disconnectFromControlSources (te_control_bindings (element_of (doc w) e)) (lo, w)"
    if absent: "track_element_observers lo e = None"
  proof (cases "disconnectFromControlSources (te_control_bindings (element_of (doc w) e)) (lo, w)")
    case (Inl err)
    then show ?thesis by (simp add: disconnectFromTrackElement_def)
  next
    case (Inr s')
    obtain lo' w' where s': "s' = (lo', w')" by (cases s')
    from Inr s' disconnectFromControlSources_keeps_track_element_observers
    have "track_element_observers lo' = track_element_observers lo" by blast
    with absent Inr s' show ?thesis by (simp add: disconnectFromTrackElement_def)
  qed
  then show ?thesis
    by (auto simp: disconnectFromControlSource_def)
qed

theorem disconnect_absent_observer_witness:
  "disconnectFromTrackElement 3 (bare_layer_observer, blank_world) =
     Inr (bare_layer_observer, blank_world)
   \<and> disconnectFromControlSource volume_binding (bare_layer_observer, blank_world) =
       Inl KeyError"
  using disconnect_absent_observer [of bare_layer_observer 3 blank_world volume_binding]
  by (simp add: bare_layer_observer_def blank_world_def blank_document_def
      blank_track_element_def)

lemma one_layer_observed_init:
  "timeline_observer_init [] one_layer_world = Inr one_layer_observed"
  by (simp add: timeline_observer_init_def connect_to_layer_def layer_observer_init_def
      one_layer_world_def one_layer_observed_def bare_layer_observer_def
      blank_world_def blank_document_def blank_layer_def push_def connect_def)

lemma layer_removed_cb_releases_nothing:
  "layer_observers (fst (layer_removed_cb l s)) = layer_observers (fst s)
   \<and> connections (snd (layer_removed_cb l s)) = connections (snd s)"
  by (cases s) (simp add: layer_removed_cb_def push_def)

text \<open>
  Detaching a track element leaves the \<^verbatim>\<open>control-binding-added\<close> callback, which
  \<^verbatim>\<open>_connectToTrackElement\<close> connected, in place.
\<close>

lemma disconnect_keeps_control_binding_added_cb:
  "connectToTrackElement [] 3 (bare_layer_observer, blank_world) =
     Inr (bare_layer_observer,
          blank_world\<lparr>connections :=
            [(3, ''control-binding-added'', LayerObserverRef 1, ''_controlBindingAddedCb'')]\<rparr>)
   \<and> disconnectFromTrackElement 3
       (bare_layer_observer,
        blank_world\<lparr>connections :=
          [(3, ''control-binding-added'', LayerObserverRef 1, ''_controlBindingAddedCb'')]\<rparr>) =
     Inr (bare_layer_observer,
          blank_world\<lparr>connections :=
            [(3, ''control-binding-added'', LayerObserverRef 1, ''_controlBindingAddedCb'')]\<rparr>)"
  by (simp add: connectToTrackElement_def disconnectFromTrackElement_def
      bare_layer_observer_def blank_world_def blank_document_def blank_track_element_def
      connect_def Let_def)

text \<open>
  C3 on the code. A timeline with one layer is observed and the layer is then removed:
  \<^verbatim>\<open>__layer_removed_cb\<close> pushes \<open>LayerRemoved\<close> and nothing else. The layer's observer
  is still registered and its three callbacks are still connected to the layer.
\<close>

theorem layer_removed_cb_keeps_observer:
  "timeline_observer_init [] one_layer_world = Inr one_layer_observed
   \<and> layer_observers (fst (layer_removed_cb 1 one_layer_observed)) 1 = Some bare_layer_observer
   \<and> filter (\<lambda>(obj, signal, owner, method). owner = LayerObserverRef 1)
        (connections (snd (layer_removed_cb 1 one_layer_observed))) =
       [(1, ''clip-added'', LayerObserverRef 1, ''_clipAddedCb''),
        (1, ''clip-removed'', LayerObserverRef 1, ''_clipRemovedCb''),
        (1, ''notify::priority'', LayerObserverRef 1, ''__layer_moved_cb'')]
   \<and> action_log (snd (layer_removed_cb 1 one_layer_observed)) = [LayerAdded 1, LayerRemoved 1]"
  by (simp add: one_layer_observed_init)
     (simp add: layer_removed_cb_def one_layer_observed_def push_def one_layer_world_def
        blank_world_def)

section \<open>Resolving the transition element\<close>

lemma get_video_element_in_filter:
  "get_video_element_in d es =
     (case filter (\<lambda>e. te_class (element_of d e) = VideoTransition) es of
        [] \<Rightarrow> None
      | e # rest \<Rightarrow> Some e)"
  by (induction es) auto

lemma get_video_element_in_None:
  "(get_video_element_in d es = None) =
     (\<forall>x \<in> set es. te_class (element_of d x) \<noteq> VideoTransition)"
  by (induction es) auto

lemma get_video_element_None:
  "(get_video_element d c = None) =
     (\<forall>e \<in> set (clip_children (clip_of d c)). te_class (element_of d e) \<noteq> VideoTransition)"
  by (simp add: get_video_element_def get_video_element_in_None)

lemma find_video_transition_in_filter:
  "find_video_transition_in d s du cs =
     (case filter (\<lambda>c. clip_is_transition (clip_of d c) \<and> clip_start (clip_of d c) = s
                      \<and> clip_duration (clip_of d c) = du
                      \<and> (\<exists>e \<in> set (clip_children (clip_of d c)).
                            te_class (element_of d e) = VideoTransition)) cs of
        [] \<Rightarrow> None
      | c # rest \<Rightarrow> get_video_element d c)"
proof (induction cs)
  case Nil
  then show ?case by simp
next
  case (Cons c cs)
  show ?case
  proof (cases "get_video_element d c")
    case None
    then have "\<forall>e \<in> set (clip_children (clip_of d c)). te_class (element_of d e) \<noteq> VideoTransition"
      by (simp add: get_video_element_None)
    with None Cons.IH show ?thesis by auto
  next
    case (Some e)
    then have "get_video_element d c \<noteq> None" by simp
    then have "\<exists>e \<in> set (clip_children (clip_of d c)). te_class (element_of d e) = VideoTransition"
      unfolding get_video_element_None by blast
    with Some Cons.IH show ?thesis by auto
  qed
qed

text \<open>
  C7. \<^verbatim>\<open>TransitionClipAddedAction.do\<close> scans the clips of the layer in order for the first
  transition clip whose start and duration equal the captured ones and which contains a
  video transition element (a transition clip of that window without one is skipped), and
  re-points the speculative element to the first video transition element of that clip.
  When the layer has no such clip, \<^verbatim>\<open>do\<close> fails its assertion.
\<close>

theorem transition_added_do_resolves:
  "do_action (TransitionClipAddedAction l s du speculative) d =
     (case filter (\<lambda>c. clip_is_transition (clip_of d c) \<and> clip_start (clip_of d c) = s
                      \<and> clip_duration (clip_of d c) = du
                      \<and> (\<exists>e \<in> set (clip_children (clip_of d c)).
                            te_class (element_of d e) = VideoTransition))
             (layer_clips (layer_of d l)) of
        [] \<Rightarrow> Inl AssertionError
      | c # rest \<Rightarrow>
          Inr (TransitionClipAddedAction l s du speculative,
               update_object speculative
                 (hd (filter (\<lambda>e. te_class (element_of d e) = VideoTransition)
                        (clip_children (clip_of d c)))) d))"
proof -
  let ?P = "\<lambda>c. clip_is_transition (clip_of d c) \<and> clip_start (clip_of d c) = s
                      \<and> clip_duration (clip_of d c) = du
                      \<and> (\<exists>e \<in> set (clip_children (clip_of d c)).
                            te_class (element_of d e) = VideoTransition)"
  show ?thesis
  proof (cases "filter ?P (layer_clips (layer_of d l))")
    case Nil
    then show ?thesis
      by (simp add: find_video_transition_def find_video_transition_in_filter)
  next
    case (Cons c rest)
    then have "c \<in> set (filter ?P (layer_clips (layer_of d l)))" by simp
    then have "\<exists>e \<in> set (clip_children (clip_of d c)). te_class (element_of d e) = VideoTransition"
      by simp
    then have ne: "filter (\<lambda>e. te_class (element_of d e) = VideoTransition)
                (clip_children (clip_of d c)) \<noteq> []"
      by (simp add: filter_empty_conv)
    then have "get_video_element d c =
       Some (hd (filter (\<lambda>e. te_class (element_of d e) = VideoTransition) (clip_children (clip_of d c))))"
      by (simp add: get_video_element_def get_video_element_in_filter split: list.splits)
    with Cons show ?thesis
      by (simp add: find_video_transition_def find_video_transition_in_filter)
  qed
qed

theorem transition_added_do_resolves_witness:
  "do_action (TransitionClipAddedAction 1 5 2 77) transition_document =
     Inr (TransitionClipAddedAction 1 5 2 77,
          transition_document\<lparr>object_updates := [(77, 12)]\<rparr>)
   \<and> do_action (TransitionClipAddedAction 1 5 3 77) transition_document = Inl AssertionError"
  using transition_added_do_resolves [of 1 5 2 77 transition_document]
    transition_added_do_resolves [of 1 5 3 77 transition_document]
  by (simp add: transition_document_def blank_document_def blank_layer_def blank_clip_def
      blank_track_element_def update_object_def)

section \<open>Commits of the timeline\<close>

lemma commits_set_child_property [simp]:
  "commits (set_child_property e n v d) = commits d"
  by (simp add: set_child_property_def)

lemma commits_set_child_properties [simp]:
  "commits (set_child_properties e ps d) = commits d"
  by (induction e ps d rule: set_child_properties.induct) simp_all

lemma commits_set_property [simp]: "commits (set_property e n v d) = commits d"
  by (simp add: set_property_def)

lemma commits_set_properties [simp]: "commits (set_properties e ps d) = commits d"
  by (induction e ps d rule: set_properties.induct) simp_all

lemma commits_update_object [simp]: "commits (update_object a b d) = commits d"
  by (simp add: update_object_def)

lemma commits_transition_removed_undo [simp]:
  "commits (transition_removed_undo tr d) = commits d"
  by (simp add: transition_removed_undo_def split: option.splits)

lemma commits_transition_removed_undo_all [simp]:
  "commits (transition_removed_undo_all trs d) = commits d"
  by (induction trs arbitrary: d) simp_all

lemma commits_track_element_action_add [simp]:
  "commits (track_element_action_add self c asset ps d) = commits d"
  by (simp add: track_element_action_add_def add_asset_def)

lemma commits_track_element_action_remove:
  "track_element_action_remove self c d = Inr d' \<Longrightarrow> commits d' = commits d"
  by (auto simp: track_element_action_remove_def clip_remove_def split: option.splits)

lemma commits_commit_through_layer:
  "commit_through_layer l d = Inr d' \<Longrightarrow> commits d' = Suc (commits d)"
  by (auto simp: commit_through_layer_def commit_timeline_def split: if_splits)

lemma commits_add_clip [simp]: "commits (add_clip l c d) = commits d"
  by (simp add: add_clip_def)

lemma commits_remove_clip [simp]: "commits (remove_clip l c d) = commits d"
  by (simp add: remove_clip_def)

lemma commits_set_name_None [simp]: "commits (set_name_None c d) = commits d"
  by (simp add: set_name_None_def)

lemma commits_add_layer [simp]: "commits (add_layer l d) = commits d"
  by (simp add: add_layer_def)

lemma commits_remove_layer [simp]: "commits (remove_layer l d) = commits d"
  by (simp add: remove_layer_def)

lemma commits_commit_timeline [simp]: "commits (commit_timeline d) = Suc (commits d)"
  by (simp add: commit_timeline_def)

lemma commits_misc [simp]:
  "commits (set_layer_priority l p d) = commits d"
  "commits (control_source_set cs t v d) = commits d"
  "commits (control_source_unset cs t d) = commits d"
  "commits (set_active e b d) = commits d"
  by (simp_all add: set_layer_priority_def control_source_set_def control_source_unset_def
      set_active_def)

lemma do_action_commits:
  "do_action a d = Inr (a', d') \<Longrightarrow>
     commits d' = commits d +
       (case a of ClipAdded l c \<Rightarrow> 1 | ClipRemoved l c trs \<Rightarrow> 1 | LayerRemoved l \<Rightarrow> 1
        | _ \<Rightarrow> 0)"
  by (cases a) (auto split: sum.splits option.splits
      dest: commits_track_element_action_remove commits_commit_through_layer)

lemma undo_action_commits:
  "undo_action a d = Inr (a', d') \<Longrightarrow>
     commits d' = commits d +
       (case a of ClipAdded l c \<Rightarrow> 1 | ClipRemoved l c trs \<Rightarrow> 1 | LayerAdded l \<Rightarrow> 1
        | _ \<Rightarrow> 0)"
  by (cases a) (auto split: sum.splits option.splits
      dest: commits_track_element_action_remove commits_commit_through_layer)

lemma clip_actions_return:
  assumes "l \<in> set (timeline_layers d)"
  shows "do_action (ClipAdded l c) d =
           Inr (ClipAdded l c, commit_timeline (add_clip l c (set_name_None c d)))"
    and "undo_action (ClipAdded l c) d =
           Inr (ClipAdded l c, commit_timeline (remove_clip l c d))"
    and "do_action (ClipRemoved l c trs) d =
           Inr (ClipRemoved l c trs, commit_timeline (remove_clip l c d))"
    and "undo_action (ClipRemoved l c trs) d =
           Inr (ClipRemoved l c trs,
                transition_removed_undo_all trs
                  (commit_timeline (add_clip l c (set_name_None c d))))"
  using assms
  by (simp_all add: commit_through_layer_def layer_in_timeline_def add_clip_def
      set_name_None_def remove_clip_def)

text \<open>
  C4, as the spec states it, fails: \<^verbatim>\<open>LayerAdded.do\<close> adds the layer and does not
  call \<^verbatim>\<open>commit_timeline\<close>.
\<close>

theorem layer_added_do_counterexample:
  "do_action (LayerAdded 1) blank_document =
     Inr (LayerAdded 1, blank_document\<lparr>timeline_layers := [1]\<rparr>)
   \<and> commits (blank_document\<lparr>timeline_layers := [1]\<rparr>) = commits blank_document"
  by (simp add: add_layer_def blank_document_def)

text \<open>
  C4, amended. Whenever they return, \<^verbatim>\<open>do\<close> and \<^verbatim>\<open>undo\<close> of \<open>ClipAdded\<close> and
  \<open>ClipRemoved\<close>, \<^verbatim>\<open>undo\<close> of \<open>LayerAdded\<close> and \<^verbatim>\<open>do\<close> of \<open>LayerRemoved\<close> call
  \<^verbatim>\<open>commit_timeline\<close> exactly once; \<^verbatim>\<open>do\<close> of \<open>LayerAdded\<close>, \<^verbatim>\<open>undo\<close> of
  \<open>LayerRemoved\<close> and both directions of every other action call it not at all. The
  clip actions return when their layer is in the timeline, the layer actions always.
\<close>

theorem commits_of_do_and_undo:
  "(do_action a d = Inr (a1, d1) \<longrightarrow>
      commits d1 = commits d +
        (case a of ClipAdded l c \<Rightarrow> 1 | ClipRemoved l c trs \<Rightarrow> 1 | LayerRemoved l \<Rightarrow> 1
         | _ \<Rightarrow> 0))
   \<and> (undo_action a d = Inr (a2, d2) \<longrightarrow>
      commits d2 = commits d +
        (case a of ClipAdded l c \<Rightarrow> 1 | ClipRemoved l c trs \<Rightarrow> 1 | LayerAdded l \<Rightarrow> 1
         | _ \<Rightarrow> 0))
   \<and> (l \<in> set (timeline_layers d) \<longrightarrow>
        do_action (ClipAdded l c) d =
          Inr (ClipAdded l c, commit_timeline (add_clip l c (set_name_None c d)))
      \<and> undo_action (ClipAdded l c) d =
          Inr (ClipAdded l c, commit_timeline (remove_clip l c d))
      \<and> do_action (ClipRemoved l c trs) d =
          Inr (ClipRemoved l c trs, commit_timeline (remove_clip l c d))
      \<and> undo_action (ClipRemoved l c trs) d =
          Inr (ClipRemoved l c trs,
               transition_removed_undo_all trs
                 (commit_timeline (add_clip l c (set_name_None c d)))))
   \<and> do_action (LayerAdded l) d = Inr (LayerAdded l, add_layer l d)
   \<and> undo_action (LayerAdded l) d = Inr (LayerAdded l, commit_timeline (remove_layer l d))
   \<and> do_action (LayerRemoved l) d = Inr (LayerRemoved l, commit_timeline (remove_layer l d))
   \<and> undo_action (LayerRemoved l) d = Inr (LayerRemoved l, add_layer l d)"
  using do_action_commits [of a d a1 d1] undo_action_commits [of a d a2 d2]
    clip_actions_return [where l = l and d = d and c = c]
  by simp

theorem commits_of_do_and_undo_witness:
  "do_action (ClipAdded 1 2) scenario_document =
     Inr (ClipAdded 1 2,
          commit_timeline (add_clip 1 2 (set_name_None 2 scenario_document)))
   \<and> commits (commit_timeline (add_clip 1 2 (set_name_None 2 scenario_document))) = 1
   \<and> undo_action (LayerAdded 1) scenario_document =
       Inr (LayerAdded 1, commit_timeline (remove_layer 1 scenario_document))
   \<and> commits (commit_timeline (remove_layer 1 scenario_document)) = 1"
  using commits_of_do_and_undo
      [where a = "ClipAdded 1 2" and d = scenario_document and ?a1.0 = "ClipAdded 1 2"
         and ?d1.0 = "commit_timeline (add_clip 1 2 (set_name_None 2 scenario_document))"
         and l = 1 and c = 2]
    commits_of_do_and_undo
      [where a = "LayerAdded 1" and d = scenario_document and ?a2.0 = "LayerAdded 1"
         and ?d2.0 = "commit_timeline (remove_layer 1 scenario_document)" and l = 1]
  by (simp add: scenario_document_def blank_document_def)

section \<open>Undo after do\<close>

lemma same_tracked_fields_refl [simp]: "same_tracked_fields d d"
  by (simp add: same_tracked_fields_def)

































text \<open>
  \<open>ActivePropertyChanged\<close> reads the element of its effect action when it runs: once the
  effect action 50 has been done and undone, so that its element is the re-created 100,
  a toggle that refers to the action sets the flag of element 100.
\<close>

lemma active_toggle_follows_effect_action:
  "action_track_element
     (snd (projr (do_then_undo (EffectRemovedAction 50 2 ''agingtv'' []) effect_document))) 50 =
     Some 100
   \<and> do_action (ActivePropertyChanged 50 False)
        (snd (projr (do_then_undo (EffectRemovedAction 50 2 ''agingtv'' []) effect_document))) =
      Inr (ActivePropertyChanged 50 True,
           set_active 100 False
             (snd (projr (do_then_undo (EffectRemovedAction 50 2 ''agingtv'' [])
                            effect_document))))"
  by (simp add: do_then_undo_def effect_document_def transition_document_def
      track_element_action_remove_def track_element_action_add_def clip_remove_def
      add_asset_def blank_document_def blank_clip_def)

section \<open>Observing a document that is not empty\<close>

lemma constructed_refl [simp]: "constructed w w []"
  by (simp add: constructed_def)

lemma constructed_trans:
  "constructed w w1 xs \<Longrightarrow> constructed w1 w2 ys \<Longrightarrow> constructed w w2 (xs @ ys)"
  by (auto simp: constructed_def)

lemma constructed_trans_nil:
  "constructed w w1 xs \<Longrightarrow> constructed w1 w2 [] \<Longrightarrow> constructed w w2 xs"
  using constructed_trans [of w w1 xs w2 "[]"] by simp

lemma constructed_connect: "constructed w w1 xs \<Longrightarrow> constructed w (connect obj signal owner method w1) xs"
  by (auto simp: constructed_def connect_def)

lemma constructed_push: "constructed w (push a w) [a]"
  by (simp add: constructed_def push_def)

lemma connected_after_connect:
  "(obj, signal, owner, method) \<in> set (connections (connect obj signal owner method w))"
  by (simp add: connect_def)

lemma constructed_connected:
  "constructed w w' xs \<Longrightarrow> x \<in> set (connections w) \<Longrightarrow> x \<in> set (connections w')"
  by (auto simp: constructed_def)

lemma constructed_control_source_observer_init:
  "constructed w (snd (control_source_observer_init cs info w)) []"
  by (auto simp: control_source_observer_init_def constructed_def connect_def)

lemma constructed_connectToControlSource:
  "connectToControlSource e b (lo, w) = (lo', w') \<Longrightarrow>
     constructed w w' [] \<and> lo_layer lo' = lo_layer lo"
  using constructed_control_source_observer_init
    [of w "binding_control_source b"
        "[(''element-name'', PyStr (te_name (element_of (doc w) e))),
          (''property-name'', PyStr (binding_name b))]"]
  by (auto simp: connectToControlSource_def split: prod.splits)

lemma constructed_connectToControlSources:
  "connectToControlSources e bs (lo, w) = (lo', w') \<Longrightarrow>
     constructed w w' [] \<and> lo_layer lo' = lo_layer lo"
proof (induction bs arbitrary: lo w)
  case Nil
  then show ?case by simp
next
  case (Cons pb bs)
  obtain pn b where pb: "pb = (pn, b)" by (cases pb)
  obtain lo1 w1 where step: "connectToControlSource e b (lo, w) = (lo1, w1)"
    by (cases "connectToControlSource e b (lo, w)")
  with Cons.prems pb have rest: "connectToControlSources e bs (lo1, w1) = (lo', w')" by simp
  from constructed_connectToControlSource [OF step] Cons.IH [OF rest]
  show ?case by (auto intro: constructed_trans_nil)
qed

lemma constructed_gobject_connect_all: "constructed w (gobject_connect_all obj ns w) []"
proof (induction ns arbitrary: w)
  case Nil
  then show ?case by simp
next
  case (Cons n ns)
  have "constructed w
          (connect obj (''notify::'' @ n) (GObjectObserverRef obj) ''_property_changed_cb'' w) []"
    by (rule constructed_connect) simp
  with Cons.IH show ?case by (auto intro: constructed_trans_nil)
qed

lemma constructed_gobject_observer_init:
  "gobject_observer_init obj reader ns w = Inr (obs, w') \<Longrightarrow> constructed w w' []"
  by (auto simp: gobject_observer_init_def constructed_gobject_connect_all split: sum.splits)

lemma constructed_timeline_element_observer_init:
  "timeline_element_observer_init ign e w = Inr (obs, w') \<Longrightarrow> constructed w w' []"
  by (auto simp: timeline_element_observer_init_def intro: constructed_connect split: sum.splits)

lemma constructed_connectToTrackElement:
  assumes "connectToTrackElement ign e (lo, w) = Inr (lo', w')"
  shows "constructed w w' (transition_actions_of_element (doc w) e) \<and> lo_layer lo' = lo_layer lo"
proof (cases "te_class (element_of (doc w) e) = VideoTransition")
  case True
  let ?a = "TransitionClipAddedAction
                (clip_layer (clip_of (doc w) (te_parent (element_of (doc w) e))))
                (clip_start (clip_of (doc w) (te_parent (element_of (doc w) e))))
                (clip_duration (clip_of (doc w) (te_parent (element_of (doc w) e)))) e"
  from assms True obtain observer where
    init: "gobject_observer_init e (element_get_property (doc (push ?a w)) e) TRANSITION_PROPS
             (push ?a w) = Inr (observer, w')"
    and lo': "lo' = lo\<lparr>track_element_observers :=
                 (track_element_observers lo)(e \<mapsto> GObjectObserver observer)\<rparr>"
    by (auto simp: connectToTrackElement_def Let_def split: sum.splits)
  from constructed_push [of w ?a] constructed_gobject_observer_init [OF init]
  have "constructed w w' [?a]" by (rule constructed_trans_nil)
  with True lo' show ?thesis by (simp add: transition_actions_of_element_def)
next
  case False
  obtain lo1 w1 where cs: "connectToControlSources e
      (te_control_bindings (element_of (doc w) e)) (lo, w) = (lo1, w1)"
    by (cases "connectToControlSources e (te_control_bindings (element_of (doc w) e)) (lo, w)")
  from constructed_connectToControlSources [OF cs]
  have k1: "constructed w w1 []" and l1: "lo_layer lo1 = lo_layer lo" by simp_all
  let ?w2 = "connect e ''control-binding-added'' (LayerObserverRef (lo_layer lo))
               ''_controlBindingAddedCb'' w1"
  from k1 have k2: "constructed w ?w2 []" by (rule constructed_connect)
  show ?thesis
  proof (cases "te_class (element_of (doc w) e) = BaseEffect
                  \<or> te_class (element_of (doc w) e) = VideoSource")
    case True
    with assms False cs obtain observer where
      init: "timeline_element_observer_init ign e ?w2 = Inr (observer, w')"
      and lo': "lo' = lo1\<lparr>track_element_observers :=
                 (track_element_observers lo1)(e \<mapsto> TimelineElementObserver observer)\<rparr>"
      by (auto simp: connectToTrackElement_def Let_def split: sum.splits)
    from k2 constructed_timeline_element_observer_init [OF init]
    have "constructed w w' []" by (rule constructed_trans_nil)
    with False lo' l1 show ?thesis by (simp add: transition_actions_of_element_def)
  next
    case notobserved: False
    with assms False cs have "w' = ?w2" "lo' = lo1"
      by (auto simp: connectToTrackElement_def Let_def split: sum.splits)
    with k2 False l1 show ?thesis by (simp add: transition_actions_of_element_def)
  qed
qed

lemma constructed_connectToTrackElements:
  "connectToTrackElements ign es (lo, w) = Inr (lo', w') \<Longrightarrow>
     constructed w w' (concat (map (transition_actions_of_element (doc w)) es))
     \<and> lo_layer lo' = lo_layer lo"
proof (induction es arbitrary: lo w)
  case Nil
  then show ?case by simp
next
  case (Cons e es)
  from Cons.prems obtain lo1 w1 where
    step: "connectToTrackElement ign e (lo, w) = Inr (lo1, w1)"
    and rest: "connectToTrackElements ign es (lo1, w1) = Inr (lo', w')"
    by (auto split: sum.splits)
  from constructed_connectToTrackElement [OF step]
  have k1: "constructed w w1 (transition_actions_of_element (doc w) e)"
    and l1: "lo_layer lo1 = lo_layer lo" by simp_all
  from k1 have d1: "doc w1 = doc w" by (simp add: constructed_def)
  from Cons.IH [OF rest] d1
  have k2: "constructed w1 w' (concat (map (transition_actions_of_element (doc w)) es))"
    and l2: "lo_layer lo' = lo_layer lo1" by simp_all
  from constructed_trans [OF k1 k2] l1 l2 show ?case by simp
qed


lemma constructed_connectToClip:
  assumes "connectToClip ign c (lo, w) = Inr (lo', w')"
  shows "constructed w w' (transition_actions_of_clip (doc w) c)"
    and "lo_layer lo' = lo_layer lo"
    and "(c, ''child-added'', LayerObserverRef (lo_layer lo), ''_clipTrackElementAddedCb'')
           \<in> set (connections w')"
    and "(c, ''child-removed'', LayerObserverRef (lo_layer lo), ''_clipTrackElementRemovedCb'')
           \<in> set (connections w')"
proof -
  let ?w0 = "connect c ''child-added'' (LayerObserverRef (lo_layer lo))
               ''_clipTrackElementAddedCb'' w"
  let ?w1 = "connect c ''child-removed'' (LayerObserverRef (lo_layer lo))
               ''_clipTrackElementRemovedCb'' ?w0"
  have k0: "constructed w ?w0 []" by (rule constructed_connect) simp
  then have k1: "constructed w ?w1 []" by (rule constructed_connect)
  have c0: "(c, ''child-added'', LayerObserverRef (lo_layer lo), ''_clipTrackElementAddedCb'')
              \<in> set (connections ?w1)"
    by (simp add: connect_def)
  have c1: "(c, ''child-removed'', LayerObserverRef (lo_layer lo), ''_clipTrackElementRemovedCb'')
              \<in> set (connections ?w1)"
    by (simp add: connect_def)
  from assms obtain lo2 w2 where
    elems: "connectToTrackElements ign (clip_children (clip_of (doc w) c)) (lo, ?w1) = Inr (lo2, w2)"
    by (auto simp: connectToClip_def Let_def split: sum.splits)
  have d1: "doc ?w1 = doc w" by (simp add: connect_def)
  from constructed_connectToTrackElements [OF elems] d1
  have k2: "constructed ?w1 w2 (transition_actions_of_clip (doc w) c)"
    and l2: "lo_layer lo2 = lo_layer lo"
    by (simp_all add: transition_actions_of_clip_def)
  from constructed_trans [OF k1 k2]
  have k3: "constructed w w2 (transition_actions_of_clip (doc w) c)" by simp
  have k4: "constructed w2 w' [] \<and> lo_layer lo' = lo_layer lo2"
  proof (cases "clip_is_transition (clip_of (doc w) c)")
    case True
    with assms elems have "w' = w2" "lo' = lo2" by (auto simp: connectToClip_def Let_def)
    then show ?thesis by simp
  next
    case False
    with assms elems obtain observer where
      init: "gobject_observer_init c (clip_get_property (doc w2) c)
         [''start'', ''duration'', ''in-point'', ''priority''] w2 = Inr (observer, w')"
      and lo': "lo' = lo2\<lparr>clip_observers := (clip_observers lo2)(c \<mapsto> observer)\<rparr>"
      by (auto simp: connectToClip_def Let_def split: sum.splits)
    from constructed_gobject_observer_init [OF init] lo' show ?thesis by simp
  qed
  from k3 k4 show "constructed w w' (transition_actions_of_clip (doc w) c)"
    by (blast intro: constructed_trans_nil)
  from k4 l2 show "lo_layer lo' = lo_layer lo" by simp
  from k2 k4 have "constructed ?w1 w' (transition_actions_of_clip (doc w) c)"
    by (blast intro: constructed_trans_nil)
  with c0 c1
  show "(c, ''child-added'', LayerObserverRef (lo_layer lo), ''_clipTrackElementAddedCb'')
           \<in> set (connections w')"
    and "(c, ''child-removed'', LayerObserverRef (lo_layer lo), ''_clipTrackElementRemovedCb'')
           \<in> set (connections w')"
    by (blast intro: constructed_connected)+
qed

lemma constructed_connectToClips:
  "connectToClips ign cs (lo, w) = Inr (lo', w') \<Longrightarrow>
     constructed w w' (concat (map (transition_actions_of_clip (doc w)) cs))
     \<and> lo_layer lo' = lo_layer lo
     \<and> (\<forall>c \<in> set cs.
           (c, ''child-added'', LayerObserverRef (lo_layer lo), ''_clipTrackElementAddedCb'')
             \<in> set (connections w')
         \<and> (c, ''child-removed'', LayerObserverRef (lo_layer lo), ''_clipTrackElementRemovedCb'')
             \<in> set (connections w'))"
proof (induction cs arbitrary: lo w)
  case Nil
  then show ?case by simp
next
  case (Cons c cs)
  from Cons.prems obtain lo1 w1 where
    step: "connectToClip ign c (lo, w) = Inr (lo1, w1)"
    and rest: "connectToClips ign cs (lo1, w1) = Inr (lo', w')"
    by (auto split: sum.splits)
  note first = constructed_connectToClip [OF step]
  from first(1) have d1: "doc w1 = doc w" by (simp add: constructed_def)
  from Cons.IH [OF rest] d1 first(2)
  have k2: "constructed w1 w' (concat (map (transition_actions_of_clip (doc w)) cs))"
    and l2: "lo_layer lo' = lo_layer lo"
    and others: "\<forall>c \<in> set cs.
           (c, ''child-added'', LayerObserverRef (lo_layer lo), ''_clipTrackElementAddedCb'')
             \<in> set (connections w')
         \<and> (c, ''child-removed'', LayerObserverRef (lo_layer lo), ''_clipTrackElementRemovedCb'')
             \<in> set (connections w')"
    by simp_all
  from first(3) first(4) k2
  have this_one: "(c, ''child-added'', LayerObserverRef (lo_layer lo), ''_clipTrackElementAddedCb'')
             \<in> set (connections w')
         \<and> (c, ''child-removed'', LayerObserverRef (lo_layer lo), ''_clipTrackElementRemovedCb'')
             \<in> set (connections w')"
    by (blast intro: constructed_connected)
  from constructed_trans [OF first(1) k2] l2 others this_one show ?case by simp
qed

lemma constructed_layer_observer_init:
  assumes "layer_observer_init ign l w = Inr (lo, w')"
  shows "constructed w w' (transition_actions_of_layer (doc w) l)"
    and "\<forall>c \<in> set (layer_clips (layer_of (doc w) l)).
           (c, ''child-added'', LayerObserverRef l, ''_clipTrackElementAddedCb'')
             \<in> set (connections w')
         \<and> (c, ''child-removed'', LayerObserverRef l, ''_clipTrackElementRemovedCb'')
             \<in> set (connections w')"
proof -
  let ?w1 = "connect l ''notify::priority'' (LayerObserverRef l) ''__layer_moved_cb''
          (connect l ''clip-removed'' (LayerObserverRef l) ''_clipRemovedCb''
             (connect l ''clip-added'' (LayerObserverRef l) ''_clipAddedCb'' w))"
  have k1: "constructed w ?w1 []" by (intro constructed_connect) simp
  have d1: "doc ?w1 = doc w" by (simp add: connect_def)
  from assms have clips: "connectToClips ign (layer_clips (layer_of (doc w) l))
       (\<lparr>lo_layer = l, lo_priority = layer_priority (layer_of (doc w) l),
         keyframe_observers = Map.empty, track_element_observers = Map.empty,
         clip_observers = Map.empty\<rparr>, ?w1) = Inr (lo, w')"
    by (simp add: layer_observer_init_def)
  from constructed_connectToClips [OF clips] d1
  have k2: "constructed ?w1 w' (transition_actions_of_layer (doc w) l)"
    and subs: "\<forall>c \<in> set (layer_clips (layer_of (doc w) l)).
           (c, ''child-added'', LayerObserverRef l, ''_clipTrackElementAddedCb'')
             \<in> set (connections w')
         \<and> (c, ''child-removed'', LayerObserverRef l, ''_clipTrackElementRemovedCb'')
             \<in> set (connections w')"
    by (simp_all add: transition_actions_of_layer_def)
  from constructed_trans [OF k1 k2]
  show "constructed w w' (transition_actions_of_layer (doc w) l)" by simp
  from subs show "\<forall>c \<in> set (layer_clips (layer_of (doc w) l)).
           (c, ''child-added'', LayerObserverRef l, ''_clipTrackElementAddedCb'')
             \<in> set (connections w')
         \<and> (c, ''child-removed'', LayerObserverRef l, ''_clipTrackElementRemovedCb'')
             \<in> set (connections w')" .
qed

lemma constructed_connect_to_layer:
  assumes "connect_to_layer ign l (tobs, w) = Inr (tobs', w')"
  shows "constructed w w' (LayerAdded l # transition_actions_of_layer (doc w) l)"
proof -
  from assms obtain lo where
    init: "layer_observer_init ign l (push (LayerAdded l) w) = Inr (lo, w')"
    by (auto simp: connect_to_layer_def split: sum.splits)
  have "doc (push (LayerAdded l) w) = doc w" by (simp add: push_def)
  with constructed_layer_observer_init(1) [OF init]
  have "constructed (push (LayerAdded l) w) w' (transition_actions_of_layer (doc w) l)" by simp
  with constructed_push [of w "LayerAdded l"] show ?thesis
    using constructed_trans by fastforce
qed

lemma constructed_connect_to_layers:
  "connect_to_layers ign ls (tobs, w) = Inr (tobs', w') \<Longrightarrow>
     constructed w w'
       (concat (map (\<lambda>l. LayerAdded l # transition_actions_of_layer (doc w) l) ls))"
proof (induction ls arbitrary: tobs w)
  case Nil
  then show ?case by simp
next
  case (Cons l ls)
  from Cons.prems obtain tobs1 w1 where
    step: "connect_to_layer ign l (tobs, w) = Inr (tobs1, w1)"
    and rest: "connect_to_layers ign ls (tobs1, w1) = Inr (tobs', w')"
    by (auto split: sum.splits)
  note k1 = constructed_connect_to_layer [OF step]
  then have d1: "doc w1 = doc w" by (simp add: constructed_def)
  from Cons.IH [OF rest] d1
  have k2: "constructed w1 w'
       (concat (map (\<lambda>l. LayerAdded l # transition_actions_of_layer (doc w) l) ls))" by simp
  from constructed_trans [OF k1 k2] show ?case by simp
qed

lemma no_added_in_transition_actions:
  "filter is_ClipAdded (transition_actions_of_layer d l) = []"
  "filter is_LayerAdded (transition_actions_of_layer d l) = []"
  by (auto simp: transition_actions_of_layer_def transition_actions_of_clip_def
      transition_actions_of_element_def filter_empty_conv)

lemma layer_added_in_construction:
  "filter is_LayerAdded
     (concat (map (\<lambda>l. LayerAdded l # transition_actions_of_layer d l) ls)) =
   map LayerAdded ls"
  by (induction ls) (simp_all add: no_added_in_transition_actions)

text \<open>
  C10, as the spec states it, fails: the clips a layer already has are not only
  subscribed to. Constructing the \<open>LayerObserver\<close> of a layer that holds a transition
  clip with a video transition pushes a \<open>TransitionClipAddedAction\<close> for it.
\<close>

theorem layer_observer_init_counterexample:
  "map_sum id (action_log \<circ> snd) (layer_observer_init [] 1 video_transition_world) =
     Inr [TransitionClipAddedAction 1 5 2 12]
   \<and> action_log video_transition_world = []
   \<and> layer_clips (layer_of (doc video_transition_world) 1) = [2, 3, 4]"
  by (simp add: layer_observer_init_def connectToClip_def connectToTrackElement_def
      gobject_observer_init_def clip_get_property_def element_get_property_def
      TRANSITION_PROPS_def video_transition_world_def transition_document_def
      blank_world_def blank_document_def blank_layer_def blank_clip_def blank_track_element_def
      connect_def push_def Let_def)

text \<open>
  C10, amended. Constructing a \<open>TimelineObserver\<close> pushes, for every layer the timeline
  already has and in their order, one \<open>LayerAdded\<close> followed by what the construction of
  that layer's observer pushes. Constructing a \<open>LayerObserver\<close> pushes no \<open>ClipAdded\<close>:
  it connects the child-added and child-removed callbacks of every clip the layer
  already has, and the only actions it pushes are one \<open>TransitionClipAddedAction\<close> for
  each video transition element of those clips.
\<close>

theorem observing_existing_children:
  "(timeline_observer_init ign w = Inr (tobs, w') \<longrightarrow>
      action_log w' = action_log w @
        concat (map (\<lambda>l. LayerAdded l # transition_actions_of_layer (doc w) l)
                  (timeline_layers (doc w)))
      \<and> filter is_LayerAdded
          (concat (map (\<lambda>l. LayerAdded l # transition_actions_of_layer (doc w) l)
                     (timeline_layers (doc w)))) =
         map LayerAdded (timeline_layers (doc w)))
   \<and> (layer_observer_init ign l w = Inr (lo, w'') \<longrightarrow>
      action_log w'' = action_log w @ transition_actions_of_layer (doc w) l
      \<and> filter is_ClipAdded (transition_actions_of_layer (doc w) l) = []
      \<and> (\<forall>c \<in> set (layer_clips (layer_of (doc w) l)).
            (c, ''child-added'', LayerObserverRef l, ''_clipTrackElementAddedCb'')
              \<in> set (connections w'')
          \<and> (c, ''child-removed'', LayerObserverRef l, ''_clipTrackElementRemovedCb'')
              \<in> set (connections w'')))"
proof (intro conjI impI)
  assume init: "timeline_observer_init ign w = Inr (tobs, w')"
  then obtain w1 where
    layers: "connect_to_layers ign (timeline_layers (doc w)) (\<lparr>layer_observers = Map.empty\<rparr>, w)
               = Inr (tobs, w1)"
    and w': "w' = connect timeline_oid ''layer-removed'' TimelineObserverRef ''__layer_removed_cb''
                 (connect timeline_oid ''layer-added'' TimelineObserverRef ''__layer_added_cb'' w1)"
    by (auto simp: timeline_observer_init_def split: sum.splits)
  from constructed_connect_to_layers [OF layers] w'
  show "action_log w' = action_log w @
        concat (map (\<lambda>l. LayerAdded l # transition_actions_of_layer (doc w) l)
                  (timeline_layers (doc w)))"
    by (simp add: constructed_def connect_def)
next
  show "filter is_LayerAdded
          (concat (map (\<lambda>l. LayerAdded l # transition_actions_of_layer (doc w) l)
                     (timeline_layers (doc w)))) =
         map LayerAdded (timeline_layers (doc w))"
    by (rule layer_added_in_construction)
next
  assume "layer_observer_init ign l w = Inr (lo, w'')"
  from constructed_layer_observer_init(1) [OF this]
  show "action_log w'' = action_log w @ transition_actions_of_layer (doc w) l"
    by (simp add: constructed_def)
next
  show "filter is_ClipAdded (transition_actions_of_layer (doc w) l) = []"
    by (rule no_added_in_transition_actions)
next
  assume "layer_observer_init ign l w = Inr (lo, w'')"
  from constructed_layer_observer_init(2) [OF this]
  show "\<forall>c \<in> set (layer_clips (layer_of (doc w) l)).
            (c, ''child-added'', LayerObserverRef l, ''_clipTrackElementAddedCb'')
              \<in> set (connections w'')
          \<and> (c, ''child-removed'', LayerObserverRef l, ''_clipTrackElementRemovedCb'')
              \<in> set (connections w'')" .
qed


lemma scenario_layer_init:
  "layer_observer_init [] 1 scenario_world = Inr scenario_layer_observed"
  by (simp add: layer_observer_init_def connectToClip_def gobject_observer_init_def
      clip_get_property_def scenario_world_def scenario_document_def blank_world_def
      blank_document_def blank_layer_def blank_clip_def connect_def Let_def
      scenario_layer_observed_def bare_layer_observer_def)

theorem observing_existing_children_witness:
  "timeline_observer_init [] one_layer_world = Inr one_layer_observed
   \<and> action_log (snd one_layer_observed) = [LayerAdded 1]
   \<and> layer_observer_init [] 1 scenario_world = Inr scenario_layer_observed
   \<and> layer_clips (layer_of (doc scenario_world) 1) = [2]
   \<and> action_log (snd scenario_layer_observed) = []
   \<and> (2, ''child-added'', LayerObserverRef 1, ''_clipTrackElementAddedCb'')
       \<in> set (connections (snd scenario_layer_observed))
   \<and> (2, ''child-removed'', LayerObserverRef 1, ''_clipTrackElementRemovedCb'')
       \<in> set (connections (snd scenario_layer_observed))"
  using observing_existing_children
      [where ign = "[]" and w = one_layer_world and tobs = "fst one_layer_observed"
         and w' = "snd one_layer_observed"]
    observing_existing_children
      [where ign = "[]" and l = 1 and w = scenario_world and lo = "fst scenario_layer_observed"
         and w'' = "snd scenario_layer_observed"]
    one_layer_observed_init scenario_layer_init
  by (simp add: one_layer_world_def scenario_world_def blank_world_def blank_document_def
      scenario_document_def blank_layer_def blank_clip_def transition_actions_of_layer_def
      transition_actions_of_clip_def)

end
